theory Spec2Isabelle
  imports Complex_Main "HOL-Library.Multiset"
begin

section \<open>Python values, dictionaries and exceptions\<close>

text \<open>
  The predictor of \<^verbatim>\<open>backend/dep.py\<close> works on Python dictionaries, strings and
  floats. A dictionary is an association list with pairwise distinct keys, in insertion
  order (Python keeps the order in which keys were first stored). Strings are ASCII.
  A float is the real number it denotes; a NaN is not represented.
\<close>

type_synonym ('k, 'v) dict = "('k \<times> 'v) list"

text \<open>
  What \<^verbatim>\<open>json.load\<close> returns: \<^verbatim>\<open>None\<close>, a number, a string, a list or a dictionary.
  Python's \<^verbatim>\<open>True\<close> and \<^verbatim>\<open>False\<close> are the numbers 1 and 0 (they are equal to them and
  hash alike), and an integer equals the float of the same value, so that equality of
  these values is Python's \<^verbatim>\<open>==\<close>.
\<close>

datatype json =
    JNull
  | JNum real
  | JStr string
  | JArr "json list"
  | JObj "(string \<times> json) list"

datatype py_exception =
    FileNotFoundError string
  | JSONDecodeError
  | UnpicklingError
  | SizeMismatch
  | EmptyReduction
  | KeyError string
  | ValueError string
  | IndexError int nat
  | TypeError string
  | AttributeError string

datatype py_value =
    PyNone
  | PyBool bool
  | PyStr string
  | PyFloat real
  | PyJson json
  | PyDict "(json, real) dict"

text \<open>\<^verbatim>\<open>d[k] = v\<close>: an existing key keeps its position, a new key goes last.\<close>

primrec dict_set :: "'k \<Rightarrow> 'v \<Rightarrow> ('k, 'v) dict \<Rightarrow> ('k, 'v) dict" where
  "dict_set k v [] = [(k, v)]"
| "dict_set k v (e # es) = (if fst e = k then (k, v) # es else e # dict_set k v es)"

text \<open>\<^verbatim>\<open>dict(pairs)\<close>, also what \<^verbatim>\<open>json.load\<close> does with the members of an object.\<close>

definition py_dict :: "('k \<times> 'v) list \<Rightarrow> ('k, 'v) dict" where
  "py_dict pairs = foldl (\<lambda>d e. dict_set (fst e) (snd e) d) [] pairs"

text \<open>\<^verbatim>\<open>d[k]\<close> for a string key: KeyError when the key is absent.\<close>

definition dict_get :: "(string, 'v) dict \<Rightarrow> string \<Rightarrow> py_exception + 'v" where
  "dict_get d k = (case map_of d k of None \<Rightarrow> Inl (KeyError k) | Some v \<Rightarrow> Inr v)"

definition bind_exc :: "py_exception + 'a \<Rightarrow> ('a \<Rightarrow> py_exception + 'b) \<Rightarrow> py_exception + 'b" where
  "bind_exc m f = (case m of Inl e \<Rightarrow> Inl e | Inr x \<Rightarrow> f x)"

text \<open>
  The value \<^verbatim>\<open>json.load\<close> builds from the text of a file: in every object a key that is
  written several times keeps its first position and its last value.
\<close>

fun loaded :: "json \<Rightarrow> json" where
  "loaded (JArr xs) = JArr (map loaded xs)"
| "loaded (JObj members) = JObj (py_dict (map (\<lambda>e. (fst e, loaded (snd e))) members))"
| "loaded v = v"

text \<open>Lists and dictionaries cannot be dictionary keys.\<close>

fun hashable :: "json \<Rightarrow> bool" where
  "hashable (JArr xs) = False"
| "hashable (JObj members) = False"
| "hashable v = True"

text \<open>A loaded value as a field of a result: \<^verbatim>\<open>None\<close> and strings as themselves.\<close>

fun py_of_json :: "json \<Rightarrow> py_value" where
  "py_of_json JNull = PyNone"
| "py_of_json (JStr s) = PyStr s"
| "py_of_json v = PyJson v"

subsection \<open>\<^verbatim>\<open>str(n)\<close> and \<^verbatim>\<open>int(s)\<close>\<close>

definition digit_char :: "nat \<Rightarrow> char" where
  "digit_char d = ''0123456789'' ! d"

fun str_nat :: "nat \<Rightarrow> string" where
  "str_nat n = (if n < 10 then [digit_char n] else str_nat (n div 10) @ [digit_char (n mod 10)])"

declare str_nat.simps [simp del]

definition str_int :: "int \<Rightarrow> string" where
  "str_int i = (if i < 0 then CHR ''-'' # str_nat (nat (- i)) else str_nat (nat i))"

definition is_digit :: "char \<Rightarrow> bool" where
  "is_digit c \<longleftrightarrow> 48 \<le> (of_char c :: nat) \<and> (of_char c :: nat) \<le> 57"

definition digit_val :: "char \<Rightarrow> nat" where
  "digit_val c = of_char c - 48"

text \<open>The ASCII characters that \<^verbatim>\<open>int()\<close> skips around a literal.\<close>

definition is_space :: "char \<Rightarrow> bool" where
  "is_space c \<longleftrightarrow> (of_char c :: nat) \<in> {9, 10, 11, 12, 13, 32}"

definition strip :: "string \<Rightarrow> string" where
  "strip s = rev (dropWhile is_space (rev (dropWhile is_space s)))"

text \<open>
  The digits of an integer literal: a single underscore may stand between two digits.
\<close>

fun digits_val :: "nat \<Rightarrow> string \<Rightarrow> nat option" where
  "digits_val acc [] = Some acc"
| "digits_val acc (c # cs) =
     (if is_digit c then digits_val (10 * acc + digit_val c) cs
      else if c = CHR ''_'' then
        (case cs of [] \<Rightarrow> None | d # ds \<Rightarrow> if is_digit d then digits_val acc cs else None)
      else None)"

definition parse_digits :: "string \<Rightarrow> nat option" where
  "parse_digits s = (case s of [] \<Rightarrow> None | c # cs \<Rightarrow> if is_digit c then digits_val 0 s else None)"

text \<open>
  \<^verbatim>\<open>int(s)\<close> on a string of ASCII characters: surrounding whitespace is dropped, one sign
  is allowed, then decimal digits. \<open>None\<close> is Python's ValueError.
\<close>

definition py_int :: "string \<Rightarrow> int option" where
  "py_int s =
     (case strip s of
        [] \<Rightarrow> None
      | c # cs \<Rightarrow>
          if c = CHR ''-'' then map_option (\<lambda>n. - int n) (parse_digits cs)
          else if c = CHR ''+'' then map_option int (parse_digits cs)
          else map_option int (parse_digits (c # cs)))"

text \<open>
  \<^verbatim>\<open>repr\<close> of an ASCII string: the quote is the apostrophe unless the string holds an
  apostrophe and no double quote; the quote and the backslash are escaped by a
  backslash, tab, newline and carriage return are written as a backslash and the letter
  t, n or r, and every other control character as a backslash, x and two hexadecimal
  digits.
\<close>

definition hex_digit :: "nat \<Rightarrow> char" where
  "hex_digit d = ''0123456789abcdef'' ! d"

definition repr_char :: "char \<Rightarrow> char \<Rightarrow> string" where
  "repr_char quote c =
     (if c = quote \<or> c = CHR 0x5C then [CHR 0x5C, c]
      else if c = CHR 0x09 then [CHR 0x5C, CHR ''t'']
      else if c = CHR 0x0A then [CHR 0x5C, CHR ''n'']
      else if c = CHR 0x0D then [CHR 0x5C, CHR ''r'']
      else if (of_char c :: nat) < 32 \<or> (of_char c :: nat) = 127
      then [CHR 0x5C, CHR ''x'', hex_digit (of_char c div 16), hex_digit (of_char c mod 16)]
      else [c])"

definition py_repr :: "string \<Rightarrow> string" where
  "py_repr s =
     (let quote = (if CHR 0x27 \<in> set s \<and> CHR 0x22 \<notin> set s then CHR 0x22 else CHR 0x27)
      in [quote] @ concat (map (repr_char quote) s) @ [quote])"

text \<open>
  \<^verbatim>\<open>str(e)\<close> of the exceptions above. A \<^verbatim>\<open>TypeError\<close> and an \<^verbatim>\<open>AttributeError\<close> carry
  their message, written without the name of the type of the offending value. The
  wording of a message decides nothing below, only whether it is empty.
\<close>

fun str_exc :: "py_exception \<Rightarrow> string" where
  "str_exc (FileNotFoundError msg) = msg"
| "str_exc JSONDecodeError = ''Expecting value: line 1 column 1 (char 0)''"
| "str_exc UnpicklingError = ''invalid load key''"
| "str_exc SizeMismatch = ''Error(s) in loading state_dict for ResNet''"
| "str_exc EmptyReduction = ''max(): Expected reduction dim 1 to have non-zero size.''"
| "str_exc (KeyError k) = py_repr k"
| "str_exc (ValueError s) = ''invalid literal for int() with base 10: '' @ py_repr s"
| "str_exc (IndexError i n) =
     ''index '' @ str_int i @ '' is out of bounds for dimension 0 with size '' @ str_nat n"
| "str_exc (TypeError what) = what"
| "str_exc (AttributeError what) = what"

section \<open>The network\<close>

text \<open>
  A tensor is the list of its entries. The ResNet50 backbone is opaque: a function from
  the preprocessed image to its feature vector. The classifier head is the one
  \<^verbatim>\<open>_load_model\<close> builds: Linear, ReLU, Dropout(0.5), Linear. Dropout draws a random
  keep-mask in training mode and is the identity in inference mode.
\<close>

type_synonym tensor = "real list"

record network =
  backbone :: "tensor \<Rightarrow> tensor"
  fc0_weight :: "real list list"
  fc0_bias :: "real list"
  fc3_weight :: "real list list"
  fc3_bias :: "real list"
  training :: bool

definition relu :: "tensor \<Rightarrow> tensor" where
  "relu x = map (\<lambda>v. max 0 v) x"

definition dropout :: "bool \<Rightarrow> bool list \<Rightarrow> tensor \<Rightarrow> tensor" where
  "dropout train keep x =
     (if train then map (\<lambda>(k, v). if k then v / (1 - 0.5) else 0) (zip keep x) else x)"

text \<open>
  \<^verbatim>\<open>torch.max(probabilities, 1)\<close>: one scan over the row that keeps the first largest
  value and its index; a row of size 0 cannot be reduced.
\<close>

fun max_scan :: "real \<Rightarrow> nat \<Rightarrow> nat \<Rightarrow> real list \<Rightarrow> real \<times> nat" where
  "max_scan best pos j [] = (best, pos)"
| "max_scan best pos j (x # xs) =
     (if best < x then max_scan x j (Suc j) xs else max_scan best pos (Suc j) xs)"

definition torch_max :: "tensor \<Rightarrow> py_exception + real \<times> nat" where
  "torch_max row = (case row of [] \<Rightarrow> Inl EmptyReduction | x # xs \<Rightarrow> Inr (max_scan x 0 1 xs))"

text \<open>\<^verbatim>\<open>probabilities[0][i]\<close> for a Python integer: negative indices count from the end.\<close>

definition tensor_index :: "tensor \<Rightarrow> int \<Rightarrow> py_exception + real" where
  "tensor_index row i =
     (let n = int (length row) in
      if 0 \<le> i \<and> i < n then Inr (row ! nat i)
      else if - n \<le> i \<and> i < 0 then Inr (row ! nat (n + i))
      else Inl (IndexError i (length row)))"

section \<open>The predictor\<close>

text \<open>\<^verbatim>\<open>self.class_map\<close> is whatever \<^verbatim>\<open>json.load\<close> returned.\<close>

record predictor =
  model :: network
  class_map :: json

record state_dict =
  sd_backbone :: "tensor \<Rightarrow> tensor"
  sd_fc0_weight :: "real list list"
  sd_fc0_bias :: "real list"
  sd_fc3_weight :: "real list list"
  sd_fc3_bias :: "real list"

text \<open>
  A file holds JSON text (given by the value it denotes, the members of an object in
  file order), a serialized state dict, or other bytes.
\<close>

datatype file_content =
    Bytes "nat list"
  | Json json
  | Checkpoint state_dict

text \<open>
  The environment of the predictor: the file at each path (\<open>None\<close>: no such file), the
  image decoder (\<^verbatim>\<open>Image.open(...).convert('RGB')\<close> followed by the transforms), \<open>None\<close>
  when it raises, and the two floating-point kernels of torch the code calls: the
  linear layer and \<^verbatim>\<open>softmax\<close>. The kernels are parameters: the model fixes what the
  code does with their results, not how they round.
\<close>

record environment =
  files :: "string \<Rightarrow> file_content option"
  decode :: "nat list \<Rightarrow> tensor option"
  linear_op :: "real list list \<Rightarrow> real list \<Rightarrow> tensor \<Rightarrow> tensor"
  softmax_op :: "tensor \<Rightarrow> tensor"

definition forward :: "environment \<Rightarrow> network \<Rightarrow> bool list \<Rightarrow> tensor \<Rightarrow> tensor" where
  "forward env net keep x =
     linear_op env (fc3_weight net) (fc3_bias net)
       (dropout (training net) keep
          (relu (linear_op env (fc0_weight net) (fc0_bias net) (backbone net x))))"

definition preprocess_image :: "environment \<Rightarrow> string \<Rightarrow> tensor option" where
  "preprocess_image env image_path =
     (case files env image_path of
        None \<Rightarrow> None
      | Some (Bytes bytes) \<Rightarrow> decode env bytes
      | Some _ \<Rightarrow> None)"

text \<open>\<^verbatim>\<open>len(v)\<close>, \<^verbatim>\<open>v[key]\<close> for a string key, \<^verbatim>\<open>v.items()\<close> and \<^verbatim>\<open>v.values()\<close>.\<close>

fun py_len :: "json \<Rightarrow> py_exception + nat" where
  "py_len (JObj d) = Inr (length d)"
| "py_len (JArr xs) = Inr (length xs)"
| "py_len (JStr s) = Inr (length s)"
| "py_len v = Inl (TypeError ''object has no len()'')"

fun py_subscript :: "json \<Rightarrow> string \<Rightarrow> py_exception + json" where
  "py_subscript (JObj d) key = dict_get d key"
| "py_subscript (JArr xs) key = Inl (TypeError ''list indices must be integers or slices, not str'')"
| "py_subscript (JStr s) key = Inl (TypeError ''string indices must be integers'')"
| "py_subscript v key = Inl (TypeError ''object is not subscriptable'')"

fun py_items :: "json \<Rightarrow> py_exception + (string \<times> json) list" where
  "py_items (JObj d) = Inr d"
| "py_items v = Inl (AttributeError ''object has no attribute items'')"

fun py_values :: "json \<Rightarrow> py_exception + json list" where
  "py_values (JObj d) = Inr (map snd d)"
| "py_values v = Inl (AttributeError ''object has no attribute values'')"

text \<open>
  The loop that fills \<^verbatim>\<open>prob_dist\<close> from \<^verbatim>\<open>self.class_map.items()\<close>. The right-hand
  side \<^verbatim>\<open>probabilities[0][int(idx)].item()\<close> is evaluated before the label is used as
  a key.
\<close>

fun fill_prob_dist ::
  "tensor \<Rightarrow> (string \<times> json) list \<Rightarrow> (json, real) dict \<Rightarrow> py_exception + (json, real) dict"
where
  "fill_prob_dist probs [] prob_dist = Inr prob_dist"
| "fill_prob_dist probs ((idx, class_name) # rest) prob_dist =
     (case py_int idx of
        None \<Rightarrow> Inl (ValueError idx)
      | Some i \<Rightarrow>
          (case tensor_index probs i of
             Inl e \<Rightarrow> Inl e
           | Inr v \<Rightarrow>
               if hashable class_name
               then fill_prob_dist probs rest (dict_set class_name v prob_dist)
               else Inl (TypeError ''unhashable type'')))"

text \<open>
  \<^verbatim>\<open>sorted(items, key=lambda x: x[1], reverse=True)\<close>: Python reverses the list, sorts it
  stably in ascending order and reverses the result.
\<close>

definition sorted_reverse :: "(json \<times> real) list \<Rightarrow> (json \<times> real) list" where
  "sorted_reverse items = rev (sort_key snd (rev items))"

definition failure_result :: "string \<Rightarrow> (string, py_value) dict" where
  "failure_result msg =
     [(''success'', PyBool False),
      (''error'', PyStr msg),
      (''class_name'', PyNone),
      (''confidence'', PyFloat 0),
      (''probabilities'', PyDict [])]"

text \<open>
  \<open>rank\<close> is the part of the \<^verbatim>\<open>try\<close> block of \<^verbatim>\<open>predict\<close> that follows the forward pass:
  softmax, \<^verbatim>\<open>torch.max\<close>, the label lookup, the loop over the class map, the sort and the
  result dictionary. \<open>Inl\<close> is an exception raised there. \<open>predict\<close> takes, besides the
  image path, the random keep-mask that dropout would draw in this call; its
  \<^verbatim>\<open>except Exception\<close> turns every exception into the failure dictionary.
\<close>

definition rank :: "environment \<Rightarrow> predictor \<Rightarrow> tensor \<Rightarrow> py_exception + (string, py_value) dict" where
  "rank env p outputs =
     (let probabilities = softmax_op env outputs in
      bind_exc (torch_max probabilities) (\<lambda>(confidence, predicted_idx).
      bind_exc (py_subscript (class_map p) (str_nat predicted_idx)) (\<lambda>predicted_class.
      bind_exc (py_items (class_map p)) (\<lambda>items.
      bind_exc (fill_prob_dist probabilities items []) (\<lambda>prob_dist.
        let sorted_probs = sorted_reverse prob_dist in
        Inr [(''success'', PyBool True),
             (''class_name'', py_of_json predicted_class),
             (''confidence'', PyFloat confidence),
             (''probabilities'', PyDict (py_dict (take 5 sorted_probs))),
             (''all_probabilities'', PyDict prob_dist)])))))"

definition predict ::
  "predictor \<Rightarrow> environment \<Rightarrow> bool list \<Rightarrow> string \<Rightarrow> (string, py_value) dict"
where
  "predict p env keep image_path =
     (case preprocess_image env image_path of
        None \<Rightarrow> failure_result ''Failed to preprocess image''
      | Some image_tensor \<Rightarrow>
          (case rank env p (forward env (model p) keep image_tensor) of
             Inl e \<Rightarrow> failure_result (str_exc e)
           | Inr result \<Rightarrow> result))"

subsection \<open>Construction\<close>

definition json_load :: "environment \<Rightarrow> string \<Rightarrow> py_exception + json" where
  "json_load env path =
     (case files env path of
        None \<Rightarrow> Inl (FileNotFoundError (''[Errno 2] No such file or directory: '' @ py_repr path))
      | Some (Json v) \<Rightarrow> Inr (loaded v)
      | Some _ \<Rightarrow> Inl JSONDecodeError)"

definition torch_load :: "environment \<Rightarrow> string \<Rightarrow> py_exception + state_dict" where
  "torch_load env path =
     (case files env path of
        None \<Rightarrow> Inl (FileNotFoundError (''[Errno 2] No such file or directory: '' @ py_repr path))
      | Some (Checkpoint sd) \<Rightarrow> Inr sd
      | Some _ \<Rightarrow> Inl UnpicklingError)"

text \<open>
  \<^verbatim>\<open>model.load_state_dict\<close> is strict: the head must have the shapes of
  \<^verbatim>\<open>Linear(2048, 512)\<close> and \<^verbatim>\<open>Linear(512, num_classes)\<close>. A freshly built module is in
  training mode; \<^verbatim>\<open>model.eval()\<close> leaves it.
\<close>

definition load_state_dict :: "nat \<Rightarrow> state_dict \<Rightarrow> py_exception + network" where
  "load_state_dict num_classes sd =
     (if length (sd_fc0_weight sd) = 512
         \<and> list_all (\<lambda>row. length row = 2048) (sd_fc0_weight sd)
         \<and> length (sd_fc0_bias sd) = 512
         \<and> length (sd_fc3_weight sd) = num_classes
         \<and> list_all (\<lambda>row. length row = 512) (sd_fc3_weight sd)
         \<and> length (sd_fc3_bias sd) = num_classes
      then Inr \<lparr>backbone = sd_backbone sd,
                fc0_weight = sd_fc0_weight sd, fc0_bias = sd_fc0_bias sd,
                fc3_weight = sd_fc3_weight sd, fc3_bias = sd_fc3_bias sd,
                training = True\<rparr>
      else Inl SizeMismatch)"

definition eval_mode :: "network \<Rightarrow> network" where
  "eval_mode net = net\<lparr>training := False\<rparr>"

definition load_model :: "environment \<Rightarrow> string \<Rightarrow> string \<Rightarrow> py_exception + network" where
  "load_model env model_path class_map_path =
     (if files env model_path = None
      then Inl (FileNotFoundError (''Model file not found: '' @ model_path))
      else
        bind_exc (json_load env class_map_path) (\<lambda>class_map.
        bind_exc (py_len class_map) (\<lambda>num_classes.
        bind_exc (torch_load env model_path) (\<lambda>sd.
        bind_exc (load_state_dict num_classes sd) (\<lambda>net.
          Inr (eval_mode net))))))"

definition load_class_map :: "environment \<Rightarrow> string \<Rightarrow> py_exception + json" where
  "load_class_map env class_map_path =
     (if files env class_map_path = None
      then Inl (FileNotFoundError (''Class map file not found: '' @ class_map_path))
      else json_load env class_map_path)"

definition init_predictor :: "environment \<Rightarrow> string \<Rightarrow> string \<Rightarrow> py_exception + predictor" where
  "init_predictor env model_path class_map_path =
     bind_exc (load_model env model_path class_map_path) (\<lambda>net.
     bind_exc (load_class_map env class_map_path) (\<lambda>cm.
       Inr \<lparr>model = net, class_map = cm\<rparr>))"

definition default_model_path :: string where
  "default_model_path = ''../model/electrical_component_classifier.pth''"

definition default_class_map_path :: string where
  "default_class_map_path = ''../model/class_map.json''"

definition create_predictor :: "environment \<Rightarrow> py_exception + predictor" where
  "create_predictor env = init_predictor env default_model_path default_class_map_path"

text \<open>
  \<^verbatim>\<open>get_class_info\<close> builds its dictionary field by field: \<^verbatim>\<open>len\<close> first, then
  \<^verbatim>\<open>.values()\<close>.
\<close>

record class_info =
  num_classes :: nat
  classes :: "json list"
  class_mapping :: json

definition get_class_info :: "predictor \<Rightarrow> py_exception + class_info" where
  "get_class_info p =
     bind_exc (py_len (class_map p)) (\<lambda>n.
     bind_exc (py_values (class_map p)) (\<lambda>vs.
       Inr \<lparr>num_classes = n, classes = vs, class_mapping = class_map p\<rparr>))"

subsection \<open>The lazily created predictor of the web application\<close>

text \<open>
  \<^verbatim>\<open>backend/app.py\<close> keeps the predictor in a module-level variable. \<open>load_count\<close> is
  an instrumentation counter: the number of calls of \<^verbatim>\<open>create_predictor\<close> so far.
\<close>

record app_state =
  predictor_ref :: "predictor option"
  load_count :: nat

definition get_predictor :: "environment \<Rightarrow> app_state \<Rightarrow> (py_exception + predictor) \<times> app_state" where
  "get_predictor env st =
     (case predictor_ref st of
        Some p \<Rightarrow> (Inr p, st)
      | None \<Rightarrow>
          (case create_predictor env of
             Inl e \<Rightarrow> (Inl e, st\<lparr>load_count := load_count st + 1\<rparr>)
           | Inr p \<Rightarrow> (Inr p, st\<lparr>predictor_ref := Some p, load_count := load_count st + 1\<rparr>)))"

text \<open>
  The server runs request handlers on threads (\<^verbatim>\<open>threaded=True\<close>). A thread inside
  \<^verbatim>\<open>get_predictor\<close> is before the test \<^verbatim>\<open>predictor is None\<close>, after a test that found
  \<^verbatim>\<open>None\<close> and before \<^verbatim>\<open>create_predictor()\<close>, or it has returned. The interpreter may
  switch threads between the test and the call. A schedule names the thread that takes
  each step.
\<close>

datatype thread = AtTest | AtCreate | Returned "py_exception + predictor"

fun thread_step :: "environment \<Rightarrow> app_state \<Rightarrow> thread \<Rightarrow> app_state \<times> thread" where
  "thread_step env st AtTest =
     (case predictor_ref st of None \<Rightarrow> (st, AtCreate) | Some p \<Rightarrow> (st, Returned (Inr p)))"
| "thread_step env st AtCreate =
     (case create_predictor env of
        Inl e \<Rightarrow> (st\<lparr>load_count := load_count st + 1\<rparr>, Returned (Inl e))
      | Inr p \<Rightarrow>
          (st\<lparr>predictor_ref := Some p, load_count := load_count st + 1\<rparr>, Returned (Inr p)))"
| "thread_step env st (Returned r) = (st, Returned r)"

fun run_schedule ::
  "environment \<Rightarrow> nat list \<Rightarrow> app_state \<times> thread list \<Rightarrow> app_state \<times> thread list"
where
  "run_schedule env [] cfg = cfg"
| "run_schedule env (i # sched) (st, ths) =
     (if i < length ths
      then (case thread_step env st (ths ! i) of
              (st', th') \<Rightarrow> run_schedule env sched (st', ths[i := th']))
      else run_schedule env sched (st, ths))"

text \<open>
  The schedule of calls that do not overlap: thread 0 takes its two steps, then thread
  1, and so on.
\<close>

definition sequential_schedule :: "nat \<Rightarrow> nat list" where
  "sequential_schedule n = concat (map (\<lambda>i. [i, i]) [0..<n])"

definition succeeded :: "(string, py_value) dict \<Rightarrow> bool" where
  "succeeded result \<longleftrightarrow> map_of result ''success'' = Some (PyBool True)"

subsection \<open>The ranking and the class map as the specification words them\<close>

text \<open>
  The specification's class indices of a class map: the integers its keys denote.
\<close>

definition indexed_labels :: "(string, json) dict \<Rightarrow> (int \<times> json) list" where
  "indexed_labels cm =
     List.map_filter (\<lambda>(key, label). map_option (\<lambda>i. (i, label)) (py_int key)) cm"

text \<open>
  The specification's index condition: the indices are exactly \<open>0, ..., N - 1\<close> for
  some \<open>N \<ge> 1\<close>.
\<close>

definition contiguous_indices :: "(string, json) dict \<Rightarrow> bool" where
  "contiguous_indices cm \<longleftrightarrow>
     cm \<noteq> [] \<and> length (indexed_labels cm) = length cm
     \<and> set (map fst (indexed_labels cm)) = set (map int [0..<length cm])"

text \<open>The specification's \<^verbatim>\<open>labels()\<close>: all labels by ascending class index.\<close>

definition labels_by_index :: "(string, json) dict \<Rightarrow> json list" where
  "labels_by_index cm = map snd (sort_key fst (indexed_labels cm))"

text \<open>
  The specification's top-K: the first \<open>min 5 N\<close> classes by descending probability,
  classes of equal probability by ascending class index.
\<close>

definition spec_top_k :: "(string, json) dict \<Rightarrow> tensor \<Rightarrow> (json \<times> real) list" where
  "spec_top_k cm probs =
     (let by_index = sort_key fst (indexed_labels cm);
          ranked = sort_key (\<lambda>(i, label). - (probs ! nat i)) by_index
      in take (min 5 (length cm)) (map (\<lambda>(i, label). (label, probs ! nat i)) ranked))"

subsection \<open>Example inputs\<close>

text \<open>
  Kernels that compute in exact arithmetic, for the examples.
\<close>

definition dot :: "real list \<Rightarrow> real list \<Rightarrow> real" where
  "dot xs ys = sum_list (map (\<lambda>(x, y). x * y) (zip xs ys))"

definition exact_linear :: "real list list \<Rightarrow> real list \<Rightarrow> tensor \<Rightarrow> tensor" where
  "exact_linear w b x = map (\<lambda>(row, bi). dot row x + bi) (zip w b)"

definition exact_softmax :: "tensor \<Rightarrow> tensor" where
  "exact_softmax xs = map (\<lambda>x. exp x / sum_list (map exp xs)) xs"

text \<open>
  A checkpoint of the right shapes whose weights are zero, so that the logits are the
  biases of the last layer; a checkpoint of two classes whose 512 hidden units are all
  1 and feed the first logit with weight \<open>ln 2 / 512\<close> each; and an environment
  holding a checkpoint at the default model path, a JSON value at the default
  class-map path, one decodable image and one zero-byte file.
\<close>

definition example_checkpoint :: "real list \<Rightarrow> state_dict" where
  "example_checkpoint b =
     \<lparr>sd_backbone = (\<lambda>_. replicate 2048 0),
      sd_fc0_weight = replicate 512 (replicate 2048 0),
      sd_fc0_bias = replicate 512 0,
      sd_fc3_weight = map (\<lambda>_. replicate 512 0) b,
      sd_fc3_bias = b\<rparr>"

definition example_net :: "real list \<Rightarrow> network" where
  "example_net b =
     \<lparr>backbone = (\<lambda>_. replicate 2048 0),
      fc0_weight = replicate 512 (replicate 2048 0),
      fc0_bias = replicate 512 0,
      fc3_weight = map (\<lambda>_. replicate 512 0) b,
      fc3_bias = b,
      training = False\<rparr>"

definition active_checkpoint :: state_dict where
  "active_checkpoint =
     \<lparr>sd_backbone = (\<lambda>_. replicate 2048 0),
      sd_fc0_weight = replicate 512 (replicate 2048 0),
      sd_fc0_bias = replicate 512 1,
      sd_fc3_weight = [replicate 512 (ln 2 / 512), replicate 512 0],
      sd_fc3_bias = [0, 0]\<rparr>"

definition active_net :: network where
  "active_net =
     \<lparr>backbone = (\<lambda>_. replicate 2048 0),
      fc0_weight = replicate 512 (replicate 2048 0),
      fc0_bias = replicate 512 1,
      fc3_weight = [replicate 512 (ln 2 / 512), replicate 512 0],
      fc3_bias = [0, 0],
      training = False\<rparr>"

definition env_with :: "json \<Rightarrow> state_dict \<Rightarrow> environment" where
  "env_with class_map_text sd =
     \<lparr>files = (\<lambda>path. if path = default_model_path then Some (Checkpoint sd)
                       else if path = default_class_map_path then Some (Json class_map_text)
                       else if path = ''img.png'' then Some (Bytes [137, 80, 78, 71])
                       else if path = ''empty.png'' then Some (Bytes [])
                       else None),
      decode = (\<lambda>bytes. if bytes = [] then None else Some [0]),
      linear_op = exact_linear,
      softmax_op = exact_softmax\<rparr>"

definition example_env :: "(string \<times> json) list \<Rightarrow> real list \<Rightarrow> environment" where
  "example_env members b = env_with (JObj members) (example_checkpoint b)"

definition example_predictor :: "(string \<times> json) list \<Rightarrow> real list \<Rightarrow> predictor" where
  "example_predictor members b = \<lparr>model = example_net b, class_map = JObj (py_dict members)\<rparr>"

definition ordered_members :: "(string \<times> json) list" where
  "ordered_members =
     [(''0'', JStr ''resistor''), (''1'', JStr ''capacitor''), (''2'', JStr ''inductor'')]"

definition swapped_members :: "(string \<times> json) list" where
  "swapped_members = [(''1'', JStr ''capacitor''), (''0'', JStr ''resistor'')]"

definition gapped_members :: "(string \<times> json) list" where
  "gapped_members = [(''0'', JStr ''resistor''), (''2'', JStr ''capacitor'')]"

definition same_label_members :: "(string \<times> json) list" where
  "same_label_members = [(''0'', JStr ''resistor''), (''1'', JStr ''resistor'')]"

definition two_members :: "(string \<times> json) list" where
  "two_members = [(''0'', JStr ''resistor''), (''1'', JStr ''capacitor'')]"

definition active_predictor :: predictor where
  "active_predictor = \<lparr>model = active_net, class_map = JObj two_members\<rparr>"

definition active_env :: environment where
  "active_env = env_with (JObj two_members) active_checkpoint"

definition label_array :: json where
  "label_array = JArr [JStr ''resistor'', JStr ''capacitor'']"

section \<open>Properties\<close>

subsection \<open>Auxiliary facts\<close>


lemma dot_zero_row: "dot (replicate n 0) ys = 0"
  by (simp add: dot_def zip_replicate1 comp_def)

lemma linear_zero_rows: "exact_linear (map (\<lambda>_. replicate n 0) b) b x = b"
  by (induction b) (simp_all add: exact_linear_def dot_zero_row)

lemma forward_example_net:
  "linear_op env = exact_linear \<Longrightarrow> forward env (example_net b) keep x = b"
proof -
  assume k: "linear_op env = exact_linear"
  have "exact_linear (replicate 512 (replicate 2048 0)) (replicate 512 0) (replicate 2048 0)
          = replicate 512 (0::real)"
    by (simp add: exact_linear_def dot_zero_row)
  then show ?thesis
    by (simp add: forward_def example_net_def dropout_def linear_zero_rows k relu_def)
qed

lemma forward_env_with:
  "forward (env_with v sd) (example_net b) keep x = b"
  by (rule forward_example_net) (simp add: env_with_def)

lemma create_predictor_env_with:
  assumes "py_len (loaded v) = Inr (length b)"
  shows "create_predictor (env_with v (example_checkpoint b))
           = Inr \<lparr>model = example_net b, class_map = loaded v\<rparr>"
  using assms
  by (simp add: create_predictor_def init_predictor_def load_model_def load_class_map_def
      json_load_def torch_load_def load_state_dict_def eval_mode_def bind_exc_def
      env_with_def example_checkpoint_def example_net_def default_model_path_def
      default_class_map_path_def list_all_iff)

lemma loaded_members:
  "list_all (\<lambda>e. loaded (snd e) = snd e) members \<Longrightarrow> loaded (JObj members) = JObj (py_dict members)"
proof -
  assume "list_all (\<lambda>e. loaded (snd e) = snd e) members"
  then have "map (\<lambda>e. (fst e, loaded (snd e))) members = members"
    by (induction members) auto
  then show ?thesis by simp
qed

lemma create_predictor_example:
  assumes "list_all (\<lambda>e. loaded (snd e) = snd e) members"
    and "length b = length (py_dict members)"
  shows "create_predictor (example_env members b) = Inr (example_predictor members b)"
proof -
  have l: "loaded (JObj members) = JObj (py_dict members)"
    by (rule loaded_members[OF assms(1)])
  have "py_len (loaded (JObj members)) = Inr (length b)"
    by (simp only: l py_len.simps assms(2))
  from create_predictor_env_with[OF this] show ?thesis
    by (simp only: l example_env_def example_predictor_def)
qed

lemma env_with_fields:
  "files (env_with v sd) path =
     (if path = default_model_path then Some (Checkpoint sd)
      else if path = default_class_map_path then Some (Json v)
      else if path = ''img.png'' then Some (Bytes [137, 80, 78, 71])
      else if path = ''empty.png'' then Some (Bytes [])
      else None)"
  "decode (env_with v sd) bytes = (if bytes = [] then None else Some [0])"
  "linear_op (env_with v sd) = exact_linear"
  "softmax_op (env_with v sd) = exact_softmax"
  by (simp_all add: env_with_def)

lemmas eval_defs =
  predict_def preprocess_image_def env_with_fields forward_env_with example_env_def
  example_predictor_def
  rank_def exact_softmax_def torch_max_def bind_exc_def dict_get_def py_int_def
  strip_def is_space_def parse_digits_def is_digit_def digit_val_def tensor_index_def
  sorted_reverse_def py_dict_def digit_char_def failure_result_def py_repr_def succeeded_def
  default_model_path_def default_class_map_path_def
  ordered_members_def swapped_members_def gapped_members_def same_label_members_def
  two_members_def label_array_def str_nat.simps

lemma py_repr_nonempty: "py_repr s \<noteq> []"
  by (simp add: py_repr_def Let_def)

lemma max_scan_inv:
  assumes "pos < length pre" "pre ! pos = best" "\<forall>k<length pre. pre ! k \<le> best"
    "\<forall>k<pos. pre ! k < best" "max_scan best pos (length pre) xs = (v, i)"
  shows "i < length (pre @ xs) \<and> (pre @ xs) ! i = v
     \<and> (\<forall>k<length (pre @ xs). (pre @ xs) ! k \<le> v) \<and> (\<forall>k<i. (pre @ xs) ! k < v)"
  using assms
proof (induction xs arbitrary: best pos pre)
  case Nil
  then show ?case by auto
next
  case (Cons x xs)
  show ?case
  proof (cases "best < x")
    case True
    have run: "max_scan x (length pre) (length (pre @ [x])) xs = (v, i)"
      using Cons.prems(5) True by simp
    have a: "length pre < length (pre @ [x])" by simp
    have b: "(pre @ [x]) ! length pre = x" by simp
    have c: "\<forall>k<length (pre @ [x]). (pre @ [x]) ! k \<le> x"
      using Cons.prems(3) True by (auto simp: nth_append less_Suc_eq intro: less_imp_le order.trans)
    have d: "\<forall>k<length pre. (pre @ [x]) ! k < x"
      using Cons.prems(3) True by (auto simp: nth_append)
    from Cons.IH[OF a b c d run] show ?thesis by simp
  next
    case False
    have run: "max_scan best pos (length (pre @ [x])) xs = (v, i)"
      using Cons.prems(5) False by simp
    have a: "pos < length (pre @ [x])" using Cons.prems(1) by simp
    have b: "(pre @ [x]) ! pos = best" using Cons.prems(1,2) by (simp add: nth_append)
    have c: "\<forall>k<length (pre @ [x]). (pre @ [x]) ! k \<le> best"
      using Cons.prems(3) False by (auto simp: nth_append less_Suc_eq)
    have d: "\<forall>k<pos. (pre @ [x]) ! k < best"
      using Cons.prems(1,4) by (auto simp: nth_append)
    from Cons.IH[OF a b c d run] show ?thesis by simp
  qed
qed

lemma torch_max_first:
  assumes "torch_max row = Inr (v, i)"
  shows "i < length row \<and> row ! i = v \<and> (\<forall>k<length row. row ! k \<le> v) \<and> (\<forall>k<i. row ! k < v)"
proof (cases row)
  case Nil
  with assms show ?thesis by (simp add: torch_max_def)
next
  case (Cons x xs)
  with assms have run: "max_scan x 0 (length [x]) xs = (v, i)" by (simp add: torch_max_def)
  have "i < length ([x] @ xs) \<and> ([x] @ xs) ! i = v
     \<and> (\<forall>k<length ([x] @ xs). ([x] @ xs) ! k \<le> v) \<and> (\<forall>k<i. ([x] @ xs) ! k < v)"
    by (rule max_scan_inv[OF _ _ _ _ run]) auto
  with Cons show ?thesis by simp
qed

lemma failure_not_succeeded: "\<not> succeeded (failure_result msg)"
  by (simp add: succeeded_def failure_result_def)

lemma py_subscript_Inr:
  assumes "py_subscript v key = Inr x"
  obtains d where "v = JObj d" "map_of d key = Some x"
  using assms by (cases v) (auto simp: dict_get_def split: option.splits)

lemma rank_Inr:
  assumes "rank env p outputs = Inr result"
  obtains confidence predicted_idx predicted_class cm prob_dist where
    "torch_max (softmax_op env outputs) = Inr (confidence, predicted_idx)"
    "class_map p = JObj cm"
    "map_of cm (str_nat predicted_idx) = Some predicted_class"
    "fill_prob_dist (softmax_op env outputs) cm [] = Inr prob_dist"
    "result =
       [(''success'', PyBool True),
        (''class_name'', py_of_json predicted_class),
        (''confidence'', PyFloat confidence),
        (''probabilities'', PyDict (py_dict (take 5 (sorted_reverse prob_dist)))),
        (''all_probabilities'', PyDict prob_dist)]"
proof -
  from assms obtain c i where tm: "torch_max (softmax_op env outputs) = Inr (c, i)"
    by (cases "torch_max (softmax_op env outputs)") (auto simp: rank_def bind_exc_def Let_def)
  from assms tm obtain l where sub: "py_subscript (class_map p) (str_nat i) = Inr l"
    by (cases "py_subscript (class_map p) (str_nat i)") (auto simp: rank_def bind_exc_def Let_def)
  from sub obtain cm where cm: "class_map p = JObj cm" and dg: "map_of cm (str_nat i) = Some l"
    by (rule py_subscript_Inr)
  from assms tm sub cm obtain pd where fp: "fill_prob_dist (softmax_op env outputs) cm [] = Inr pd"
    by (cases "fill_prob_dist (softmax_op env outputs) cm []")
       (auto simp: rank_def bind_exc_def Let_def)
  from assms tm sub cm fp have "result =
       [(''success'', PyBool True),
        (''class_name'', py_of_json l),
        (''confidence'', PyFloat c),
        (''probabilities'', PyDict (py_dict (take 5 (sorted_reverse pd)))),
        (''all_probabilities'', PyDict pd)]"
    by (simp add: rank_def bind_exc_def Let_def)
  with tm cm dg fp show ?thesis using that by blast
qed

lemma predict_succeeded_cases:
  assumes "succeeded (predict p env keep image_path)"
  obtains image_tensor confidence predicted_idx predicted_class cm prob_dist where
    "preprocess_image env image_path = Some image_tensor"
    "torch_max (softmax_op env (forward env (model p) keep image_tensor))
       = Inr (confidence, predicted_idx)"
    "class_map p = JObj cm"
    "map_of cm (str_nat predicted_idx) = Some predicted_class"
    "fill_prob_dist (softmax_op env (forward env (model p) keep image_tensor)) cm []
       = Inr prob_dist"
    "predict p env keep image_path =
       [(''success'', PyBool True),
        (''class_name'', py_of_json predicted_class),
        (''confidence'', PyFloat confidence),
        (''probabilities'', PyDict (py_dict (take 5 (sorted_reverse prob_dist)))),
        (''all_probabilities'', PyDict prob_dist)]"
proof -
  from assms obtain t where pre: "preprocess_image env image_path = Some t"
    by (cases "preprocess_image env image_path") (auto simp: predict_def failure_not_succeeded)
  from assms pre obtain r where rk: "rank env p (forward env (model p) keep t) = Inr r"
    by (cases "rank env p (forward env (model p) keep t)")
       (auto simp: predict_def failure_not_succeeded)
  from pre rk have eq: "predict p env keep image_path = r" by (simp add: predict_def)
  from rk show ?thesis
    by (rule rank_Inr) (use pre eq that in blast)
qed

lemma dict_set_fresh: "k \<notin> set (map fst d) \<Longrightarrow> dict_set k v d = d @ [(k, v)]"
  by (induction d) auto

lemma dict_set_keys:
  "map fst (dict_set k v d) = (if k \<in> set (map fst d) then map fst d else map fst d @ [k])"
  by (induction d) auto

lemma dict_set_values: "set (map snd (dict_set k v d)) \<subseteq> insert v (set (map snd d))"
  by (induction d) auto

lemma foldl_dict_set_distinct:
  "distinct (map fst (acc @ xs)) \<Longrightarrow>
   foldl (\<lambda>d e. dict_set (fst e) (snd e) d) acc xs = acc @ xs"
proof (induction xs arbitrary: acc)
  case Nil
  then show ?case by simp
next
  case (Cons x xs)
  have fresh: "fst x \<notin> set (map fst acc)" using Cons.prems by auto
  have "distinct (map fst ((acc @ [x]) @ xs))" using Cons.prems by simp
  from Cons.IH[OF this] fresh show ?case by (simp add: dict_set_fresh)
qed

lemma py_dict_distinct: "distinct (map fst xs) \<Longrightarrow> py_dict xs = xs"
  using foldl_dict_set_distinct[of "[]" xs] by (simp add: py_dict_def)

lemma foldl_dict_set_keys_distinct:
  "distinct (map fst acc) \<Longrightarrow> distinct (map fst (foldl (\<lambda>d e. dict_set (fst e) (snd e) d) acc xs))"
  by (induction xs arbitrary: acc) (auto simp: dict_set_keys)

lemma py_dict_keys_distinct: "distinct (map fst (py_dict xs))"
  by (simp add: py_dict_def foldl_dict_set_keys_distinct)

lemma fill_prob_dist_keys:
  "fill_prob_dist probs cm acc = Inr pd \<Longrightarrow>
   set (map fst pd) = set (map fst acc) \<union> set (map snd cm)
   \<and> (distinct (map fst acc) \<longrightarrow> distinct (map fst pd))"
proof (induction cm arbitrary: acc)
  case Nil
  then show ?case by simp
next
  case (Cons e cm)
  obtain idx class_name where e: "e = (idx, class_name)" by (cases e)
  from Cons.prems e obtain i v where
    "fill_prob_dist probs cm (dict_set class_name v acc) = Inr pd"
    by (auto split: option.splits sum.splits if_splits)
  from Cons.IH[OF this] show ?case
    by (auto simp: e dict_set_keys split: if_splits)
qed

lemma fill_prob_dist_order:
  "fill_prob_dist probs cm acc = Inr pd \<Longrightarrow> distinct (map fst acc @ map snd cm) \<Longrightarrow>
   map fst pd = map fst acc @ map snd cm"
proof (induction cm arbitrary: acc)
  case Nil
  then show ?case by simp
next
  case (Cons e cm)
  obtain idx class_name where e: "e = (idx, class_name)" by (cases e)
  from Cons.prems(1) e obtain i v where
    run: "fill_prob_dist probs cm (dict_set class_name v acc) = Inr pd"
    by (auto split: option.splits sum.splits if_splits)
  have keys: "map fst (dict_set class_name v acc) = map fst acc @ [class_name]"
    using Cons.prems(2) e by (simp add: dict_set_keys)
  have "distinct (map fst (dict_set class_name v acc) @ map snd cm)"
    using Cons.prems(2) e by (simp add: keys)
  from Cons.IH[OF run this] show ?case by (simp add: keys e)
qed

lemma sorted_reverse_mset: "mset (sorted_reverse items) = mset items"
  by (simp add: sorted_reverse_def)

lemma sorted_reverse_descending: "sorted_wrt (\<lambda>a b. snd b \<le> snd a) (sorted_reverse items)"
proof -
  have "sorted (map snd (sort_key snd (rev items)))" by simp
  then have "sorted_wrt (\<lambda>a b. snd a \<le> snd b) (sort_key snd (rev items))"
    by (simp add: sorted_map)
  then show ?thesis
    by (simp add: sorted_reverse_def sorted_wrt_rev)
qed

lemma sorted_reverse_stable:
  "filter (\<lambda>e. snd e = v) (sorted_reverse items) = filter (\<lambda>e. snd e = v) items"
proof -
  have "filter (\<lambda>e. snd e = v) (sort_key snd (rev items)) = filter (\<lambda>e. snd e = v) (rev items)"
    by (rule sort_key_stable)
  then show ?thesis
    by (simp add: sorted_reverse_def rev_filter[symmetric])
qed

lemma sorted_reverse_keys_distinct:
  "distinct (map fst items) \<Longrightarrow> distinct (map fst (sorted_reverse items))"
proof -
  assume d: "distinct (map fst items)"
  have "mset (map fst (sorted_reverse items)) = mset (map fst items)"
    by (simp add: sorted_reverse_mset)
  then show ?thesis using d by (metis mset_eq_imp_distinct_iff)
qed

lemma digit_char_props:
  assumes "d < 10"
  shows "is_digit (digit_char d)" "digit_val (digit_char d) = d" "\<not> is_space (digit_char d)"
    "digit_char d \<noteq> CHR ''-''" "digit_char d \<noteq> CHR ''+''"
proof -
  from assms have "d \<in> {0, 1, 2, 3, 4, 5, 6, 7, 8, 9}" by auto
  then show "is_digit (digit_char d)" "digit_val (digit_char d) = d" "\<not> is_space (digit_char d)"
    "digit_char d \<noteq> CHR ''-''" "digit_char d \<noteq> CHR ''+''"
    by (auto simp: digit_char_def is_digit_def digit_val_def is_space_def)
qed

lemma digits_val_append:
  "list_all is_digit s \<Longrightarrow>
   digits_val acc (s @ t) = digits_val (foldl (\<lambda>a c. 10 * a + digit_val c) acc s) t"
  by (induction s arbitrary: acc) auto

lemma str_nat_digits: "list_all is_digit (str_nat n)"
proof (induction n rule: str_nat.induct)
  case (1 n)
  show ?case
  proof (cases "n < 10")
    case True
    then show ?thesis by (subst str_nat.simps) (simp add: digit_char_props)
  next
    case False
    then have "list_all is_digit (str_nat (n div 10))" using 1 by simp
    moreover have "is_digit (digit_char (n mod 10))" by (simp add: digit_char_props)
    ultimately show ?thesis using False by (subst str_nat.simps) simp
  qed
qed

lemma str_nat_value: "foldl (\<lambda>a c. 10 * a + digit_val c) 0 (str_nat n) = n"
proof (induction n rule: str_nat.induct)
  case (1 n)
  show ?case
  proof (cases "n < 10")
    case True
    then show ?thesis by (subst str_nat.simps) (simp add: digit_char_props)
  next
    case False
    then have "foldl (\<lambda>a c. 10 * a + digit_val c) 0 (str_nat (n div 10)) = n div 10"
      using 1 by simp
    then show ?thesis using False
      by (subst str_nat.simps) (simp add: digit_char_props)
  qed
qed

lemma str_nat_nonempty: "str_nat n \<noteq> []"
  by (subst str_nat.simps) simp

lemma str_nat_no_space: "list_all (\<lambda>c. \<not> is_space c) (str_nat n)"
proof -
  have "is_digit c \<Longrightarrow> \<not> is_space c" for c
    by (auto simp: is_digit_def is_space_def)
  then show ?thesis using str_nat_digits[of n] by (auto simp: list_all_iff)
qed

lemma strip_no_space:
  assumes "list_all (\<lambda>c. \<not> is_space c) s"
  shows "strip s = s"
proof (cases "s = []")
  case True
  then show ?thesis by (simp add: strip_def)
next
  case False
  then have "hd s \<in> set s" "last s \<in> set s" by simp_all
  with assms have h: "\<not> is_space (hd s)" and l: "\<not> is_space (last s)"
    by (simp_all add: list_all_iff)
  from h have a: "dropWhile is_space s = s"
    by (simp add: dropWhile_eq_self_iff)
  from l False have "dropWhile is_space (rev s) = rev s"
    by (simp add: dropWhile_eq_self_iff hd_rev)
  with a show ?thesis by (simp add: strip_def)
qed

lemma parse_digits_str_nat: "parse_digits (str_nat n) = Some n"
proof -
  obtain c cs where s: "str_nat n = c # cs"
    using str_nat_nonempty[of n] by (cases "str_nat n") auto
  have dig: "is_digit c" using str_nat_digits[of n] s by simp
  have "digits_val 0 (str_nat n @ []) = digits_val (foldl (\<lambda>a c. 10 * a + digit_val c) 0 (str_nat n)) []"
    by (rule digits_val_append) (rule str_nat_digits)
  then have "digits_val 0 (str_nat n) = Some n"
    by (simp add: str_nat_value)
  then show ?thesis using dig s by (simp add: parse_digits_def)
qed

lemma py_int_str_nat: "py_int (str_nat n) = Some (int n)"
proof -
  obtain c cs where s: "str_nat n = c # cs"
    using str_nat_nonempty[of n] by (cases "str_nat n") auto
  have dig: "is_digit c" using str_nat_digits[of n] s by simp
  then have sign: "c \<noteq> CHR ''-''" "c \<noteq> CHR ''+''"
    by (auto simp: is_digit_def)
  have st: "strip (str_nat n) = c # cs"
    using strip_no_space[OF str_nat_no_space, of n] s by simp
  have "parse_digits (c # cs) = Some n"
    using parse_digits_str_nat[of n] s by simp
  then show ?thesis
    using sign by (simp add: py_int_def st)
qed

lemma str_nat_inj: "str_nat m = str_nat n \<Longrightarrow> m = n"
proof -
  assume "str_nat m = str_nat n"
  then have "py_int (str_nat m) = py_int (str_nat n)" by (rule arg_cong)
  then show "m = n" by (simp add: py_int_str_nat)
qed

lemma str_nat_zero: "str_nat 0 = ''0''"
  by (subst str_nat.simps) (simp add: digit_char_def)

lemma str_nat_canonical: "str_nat n = ''0'' \<or> hd (str_nat n) \<noteq> CHR ''0''"
proof (induction n rule: str_nat.induct)
  case (1 n)
  show ?case
  proof (cases "n < 10")
    case True
    then have "n \<in> {0, 1, 2, 3, 4, 5, 6, 7, 8, 9}" by auto
    then show ?thesis
      by (subst (1 2) str_nat.simps) (auto simp: digit_char_def)
  next
    case False
    then have ih: "str_nat (n div 10) = ''0'' \<or> hd (str_nat (n div 10)) \<noteq> CHR ''0''"
      using 1 by simp
    have "n div 10 \<noteq> 0" using False by simp
    then have "str_nat (n div 10) \<noteq> ''0''"
      using str_nat_inj[of "n div 10" 0] by (auto simp: str_nat_zero)
    with ih have h: "hd (str_nat (n div 10)) \<noteq> CHR ''0''" by simp
    have "hd (str_nat n) = hd (str_nat (n div 10))"
      using False str_nat_nonempty[of "n div 10"] by (subst str_nat.simps) simp
    with h show ?thesis by simp
  qed
qed

lemma tensor_index_error_message: "tensor_index row i = Inl e \<Longrightarrow> str_exc e \<noteq> []"
  by (auto simp: tensor_index_def Let_def split: if_splits)

lemma fill_prob_dist_error_message:
  "fill_prob_dist probs cm acc = Inl e \<Longrightarrow> str_exc e \<noteq> []"
proof (induction cm arbitrary: acc)
  case Nil
  then show ?case by simp
next
  case (Cons a cm)
  obtain idx class_name where a: "a = (idx, class_name)" by (cases a)
  show ?case
  proof (cases "py_int idx")
    case None
    with Cons.prems a show ?thesis by (auto simp: py_repr_nonempty)
  next
    case (Some i)
    show ?thesis
    proof (cases "tensor_index probs i")
      case (Inl e')
      with Cons.prems a Some have "e = e'" by simp
      with Inl show ?thesis by (simp add: tensor_index_error_message)
    next
      case (Inr v)
      show ?thesis
      proof (cases "hashable class_name")
        case True
        with Cons.prems a Some Inr
        have "fill_prob_dist probs cm (dict_set class_name v acc) = Inl e" by simp
        then show ?thesis by (rule Cons.IH)
      next
        case False
        with Cons.prems a Some Inr show ?thesis by auto
      qed
    qed
  qed
qed

lemma py_subscript_error_message: "py_subscript v key = Inl e \<Longrightarrow> str_exc e \<noteq> []"
  by (cases v) (auto simp: dict_get_def py_repr_nonempty split: option.splits)

lemma py_items_error_message: "py_items v = Inl e \<Longrightarrow> str_exc e \<noteq> []"
  by (cases v) auto

lemma torch_max_error_message: "torch_max row = Inl e \<Longrightarrow> str_exc e \<noteq> []"
  by (auto simp: torch_max_def split: list.splits)

lemma rank_error_message:
  assumes "rank env p outputs = Inl e"
  shows "str_exc e \<noteq> []"
proof (cases "torch_max (softmax_op env outputs)")
  case (Inl e')
  with assms have "e = e'" by (simp add: rank_def bind_exc_def)
  with Inl show ?thesis by (simp add: torch_max_error_message)
next
  case tm: (Inr ci)
  obtain c i where ci: "ci = (c, i)" by (cases ci)
  show ?thesis
  proof (cases "py_subscript (class_map p) (str_nat i)")
    case (Inl e')
    with assms tm ci have "e = e'" by (simp add: rank_def bind_exc_def)
    with Inl show ?thesis by (simp add: py_subscript_error_message)
  next
    case sub: (Inr l)
    show ?thesis
    proof (cases "py_items (class_map p)")
      case (Inl e')
      with assms tm ci sub have "e = e'" by (simp add: rank_def bind_exc_def)
      with Inl show ?thesis by (simp add: py_items_error_message)
    next
      case it: (Inr items)
      show ?thesis
      proof (cases "fill_prob_dist (softmax_op env outputs) items []")
        case (Inl e')
        with assms tm ci sub it have "e = e'" by (simp add: rank_def bind_exc_def)
        with Inl show ?thesis by (simp add: fill_prob_dist_error_message)
      next
        case (Inr pd)
        with assms tm ci sub it show ?thesis by (simp add: rank_def bind_exc_def Let_def)
      qed
    qed
  qed
qed

lemma failure_result_fields:
  "map_of (failure_result msg) ''success'' = Some (PyBool False)"
  "map_of (failure_result msg) ''error'' = Some (PyStr msg)"
  "map_of (failure_result msg) ''class_name'' = Some PyNone"
  "map_of (failure_result msg) ''confidence'' = Some (PyFloat 0)"
  "map_of (failure_result msg) ''probabilities'' = Some (PyDict [])"
  "map_of (failure_result msg) ''all_probabilities'' = None"
  by (simp_all add: failure_result_def)

lemma predict_cases:
  obtains (preprocess) "preprocess_image env image_path = None"
      "predict p env keep image_path = failure_result ''Failed to preprocess image''"
  | (raised) image_tensor e where "preprocess_image env image_path = Some image_tensor"
      "rank env p (forward env (model p) keep image_tensor) = Inl e"
      "predict p env keep image_path = failure_result (str_exc e)"
  | (returned) image_tensor result where "preprocess_image env image_path = Some image_tensor"
      "rank env p (forward env (model p) keep image_tensor) = Inr result"
      "predict p env keep image_path = result"
proof (cases "preprocess_image env image_path")
  case None
  then show ?thesis using preprocess by (simp add: predict_def)
next
  case (Some t)
  then show ?thesis
    by (cases "rank env p (forward env (model p) keep t)")
       (auto simp: predict_def intro: raised returned)
qed

lemma rank_succeeded: "rank env p outputs = Inr result \<Longrightarrow> succeeded result"
  by (erule rank_Inr) (simp add: succeeded_def)

lemma init_predictor_loaded:
  assumes "files env model_path = Some (Checkpoint sd)"
    and "files env class_map_path = Some (Json v)"
    and "py_len (loaded v) = Inr n"
    and "load_state_dict n sd = Inr net"
  shows "init_predictor env model_path class_map_path
           = Inr \<lparr>model = eval_mode net, class_map = loaded v\<rparr>"
  using assms
  by (simp add: init_predictor_def load_model_def load_class_map_def json_load_def
      torch_load_def bind_exc_def)

lemma init_predictor_Inr:
  assumes "init_predictor env model_path class_map_path = Inr p"
  obtains v sd n where
    "files env class_map_path = Some (Json v)"
    "files env model_path = Some (Checkpoint sd)"
    "class_map p = loaded v"
    "py_len (loaded v) = Inr n"
    "length (fc3_weight (model p)) = n"
    "length (fc3_bias (model p)) = n"
    "\<not> training (model p)"
proof -
  from assms obtain net cm where
    lm: "load_model env model_path class_map_path = Inr net" and
    lc: "load_class_map env class_map_path = Inr cm" and
    p: "p = \<lparr>model = net, class_map = cm\<rparr>"
    by (auto simp: init_predictor_def bind_exc_def split: sum.splits)
  from lc obtain v where
    f: "files env class_map_path = Some (Json v)" and cm: "cm = loaded v"
    by (auto simp: load_class_map_def json_load_def split: if_splits option.splits file_content.splits)
  from lm f obtain sd n net0 where
    g: "files env model_path = Some (Checkpoint sd)" and
    n: "py_len (loaded v) = Inr n" and
    ls: "load_state_dict n sd = Inr net0" and
    net: "net = eval_mode net0"
    by (auto simp: load_model_def json_load_def torch_load_def bind_exc_def
        split: if_splits option.splits file_content.splits sum.splits)
  from ls have "length (fc3_weight net0) = n" "length (fc3_bias net0) = n"
    by (auto simp: load_state_dict_def split: if_splits)
  with f g cm p net n show ?thesis
    by (intro that[of v sd n]) (simp_all add: eval_mode_def)
qed

lemma load_example_checkpoint:
  "load_state_dict (length b) (example_checkpoint b) = Inr ((example_net b)\<lparr>training := True\<rparr>)"
  by (simp add: load_state_dict_def example_checkpoint_def example_net_def list_all_iff)

lemma map_of_dict_set: "map_of (dict_set k v d) = (map_of d)(k \<mapsto> v)"
  by (induction d) (auto simp: fun_eq_iff)

lemma map_of_foldl_dict_set:
  "map_of (foldl (\<lambda>d e. dict_set (fst e) (snd e) d) acc xs) = map_of acc ++ map_of (rev xs)"
proof (induction xs arbitrary: acc)
  case Nil
  then show ?case by simp
next
  case (Cons x xs)
  have "map_of (foldl (\<lambda>d e. dict_set (fst e) (snd e) d) (dict_set (fst x) (snd x) acc) xs)
      = map_of (dict_set (fst x) (snd x) acc) ++ map_of (rev xs)"
    by (rule Cons.IH)
  also have "\<dots> = (map_of acc ++ map_of [x]) ++ map_of (rev xs)"
    by (cases x) (simp add: map_of_dict_set)
  also have "\<dots> = map_of acc ++ map_of (rev (x # xs))"
    by (simp add: map_add_assoc)
  finally show ?case by simp
qed

lemma map_of_py_dict: "map_of (py_dict xs) = map_of (rev xs)"
  by (simp add: py_dict_def map_of_foldl_dict_set)

lemma remdups_later: "k \<in> set ys \<Longrightarrow> remdups (xs @ k # ys) = remdups (xs @ ys)"
  by (induction xs) auto

lemma keys_foldl_dict_set:
  "distinct (map fst acc) \<Longrightarrow>
   map fst (foldl (\<lambda>d e. dict_set (fst e) (snd e) d) acc xs)
     = rev (remdups (rev (map fst acc @ map fst xs)))"
proof (induction xs arbitrary: acc)
  case Nil
  then show ?case by (simp add: distinct_remdups_id)
next
  case (Cons x xs)
  let ?acc = "dict_set (fst x) (snd x) acc"
  have d: "distinct (map fst ?acc)"
    using Cons.prems by (auto simp: dict_set_keys)
  have ih: "map fst (foldl (\<lambda>d e. dict_set (fst e) (snd e) d) ?acc xs)
      = rev (remdups (rev (map fst ?acc @ map fst xs)))"
    by (rule Cons.IH[OF d])
  show ?case
  proof (cases "fst x \<in> set (map fst acc)")
    case True
    then have "fst x \<in> set (rev (map fst acc))" by simp
    then have "remdups (rev (map fst xs) @ fst x # rev (map fst acc))
        = remdups (rev (map fst xs) @ rev (map fst acc))"
      by (rule remdups_later)
    with True ih show ?thesis by (simp add: dict_set_keys)
  next
    case False
    with ih show ?thesis by (simp add: dict_set_keys)
  qed
qed

lemma keys_py_dict: "map fst (py_dict xs) = rev (remdups (rev (map fst xs)))"
  using keys_foldl_dict_set[of "[]" xs] by (simp add: py_dict_def)

lemma indexed_labels_in_order:
  "list_all2 (\<lambda>key i. py_int key = Some (int i)) (map fst cm) ns \<Longrightarrow>
   indexed_labels cm = zip (map int ns) (map snd cm)"
proof (induction cm arbitrary: ns)
  case Nil
  then show ?case by (simp add: indexed_labels_def List.map_filter_simps)
next
  case (Cons e cm)
  obtain k l where e: "e = (k, l)" by (cases e)
  from Cons.prems obtain n rest where ns: "ns = n # rest" and k: "py_int k = Some (int n)"
    and tl: "list_all2 (\<lambda>key i. py_int key = Some (int i)) (map fst cm) rest"
    by (cases ns) (auto simp: e)
  have "indexed_labels cm = zip (map int rest) (map snd cm)"
    by (rule Cons.IH[OF tl])
  then show ?case
    by (simp add: indexed_labels_def List.map_filter_simps e k ns)
qed

lemma keys_in_order_distinct:
  assumes "list_all2 (\<lambda>key i. py_int key = Some (int i)) keys [0..<length keys]"
  shows "distinct keys"
proof -
  have "map py_int keys = map (\<lambda>i. Some (int i)) [0..<length keys]"
    using assms by (auto simp: list_all2_conv_all_nth intro: nth_equalityI)
  moreover have "distinct (map (\<lambda>i. Some (int i)) [0..<length keys])"
    by (simp add: distinct_map inj_on_def)
  ultimately have "distinct (map py_int keys)" by simp
  then show ?thesis by (simp add: distinct_map)
qed

lemma labels_by_index_ascending:
  assumes "list_all2 (\<lambda>key i. py_int key = Some (int i)) (map fst cm) [0..<length cm]"
  shows "labels_by_index cm = map snd cm"
proof -
  have il: "indexed_labels cm = zip (map int [0..<length cm]) (map snd cm)"
    by (rule indexed_labels_in_order[OF assms])
  have "map fst (indexed_labels cm) = map int [0..<length cm]"
    by (simp add: il)
  moreover have "sorted (map int [0..<length cm])"
    by (simp add: sorted_map sorted_wrt_iff_nth_less)
  ultimately have "sorted (map fst (indexed_labels cm))" by simp
  then have "sort_key fst (indexed_labels cm) = indexed_labels cm"
    by (rule sort_key_id_if_sorted)
  then show ?thesis by (simp add: labels_by_index_def il)
qed

lemma get_class_info_dict:
  "class_map p = JObj cm \<Longrightarrow>
   get_class_info p = Inr \<lparr>num_classes = length cm, classes = map snd cm, class_mapping = JObj cm\<rparr>"
  by (simp add: get_class_info_def bind_exc_def)

lemma forward_eval_mode:
  "\<not> training net \<Longrightarrow> forward env net keep1 x = forward env net keep2 x"
  by (simp add: forward_def dropout_def)

lemma dot_replicate: "dot (replicate n a) (replicate n b) = of_nat n * (a * b)"
  by (simp add: dot_def zip_replicate sum_list_replicate)

lemma active_hidden:
  "relu (exact_linear (replicate 512 (replicate 2048 0)) (replicate 512 1) x) = replicate 512 1"
  by (simp add: exact_linear_def zip_replicate dot_zero_row relu_def)

lemma active_head:
  "exact_linear [replicate 512 (ln 2 / 512), replicate 512 0] [0, 0] (replicate 512 c)
     = [c * ln 2, 0]"
  by (simp add: exact_linear_def dot_replicate dot_zero_row)

lemma forward_active_net:
  "forward (env_with v sd) active_net keep x = [ln 2, 0]"
  using active_head[of 1]
  by (simp add: forward_def active_net_def env_with_fields dropout_def active_hidden)

lemma forward_active_net_kept:
  "forward (env_with v sd) (active_net\<lparr>training := True\<rparr>) (replicate 512 True) x = [ln 4, 0]"
proof -
  have "ln (2 * 2 :: real) = ln 2 + ln 2" by (rule ln_mult_pos) simp_all
  then have l: "ln (4::real) = 2 * ln 2" by simp
  show ?thesis
    using active_head[of 2]
    by (simp add: forward_def active_net_def env_with_fields dropout_def active_hidden
        zip_replicate l)
qed

lemma forward_active_net_dropped:
  "forward (env_with v sd) (active_net\<lparr>training := True\<rparr>) (replicate 512 False) x = [0, 0]"
  using active_head[of 0]
  by (simp add: forward_def active_net_def env_with_fields dropout_def active_hidden
      zip_replicate)

lemma create_predictor_active: "create_predictor active_env = Inr active_predictor"
  by (simp add: create_predictor_def init_predictor_def load_model_def load_class_map_def
      json_load_def torch_load_def load_state_dict_def eval_mode_def bind_exc_def
      env_with_def active_env_def active_predictor_def active_checkpoint_def active_net_def
      default_model_path_def default_class_map_path_def list_all_iff two_members_def py_dict_def)

lemma run_schedule_append:
  "run_schedule env (s1 @ s2) cfg = run_schedule env s2 (run_schedule env s1 cfg)"
proof (induction s1 arbitrary: cfg)
  case Nil
  then show ?case by simp
next
  case (Cons i s1)
  obtain st ths where cfg: "cfg = (st, ths)" by (cases cfg)
  show ?case
    by (cases "thread_step env st (ths ! i)") (simp add: cfg Cons.IH)
qed

lemma run_schedule_extra:
  "\<forall>i\<in>set sched. i < length ths \<Longrightarrow>
   run_schedule env sched (st, ths @ extra)
     = (fst (run_schedule env sched (st, ths)), snd (run_schedule env sched (st, ths)) @ extra)"
proof (induction sched arbitrary: st ths)
  case Nil
  then show ?case by simp
next
  case (Cons i sched)
  obtain st' th' where step: "thread_step env st (ths ! i) = (st', th')"
    by (cases "thread_step env st (ths ! i)")
  have i: "i < length ths" using Cons.prems by simp
  have rest: "\<forall>j\<in>set sched. j < length (ths[i := th'])" using Cons.prems by simp
  from Cons.IH[OF rest, of st'] i step show ?case
    by (simp add: nth_append list_update_append1)
qed

lemma sequential_schedule_Suc:
  "sequential_schedule (Suc n) = sequential_schedule n @ [n, n]"
  by (simp add: sequential_schedule_def)

lemma sequential_schedule_bound: "\<forall>i\<in>set (sequential_schedule n). i < n"
  by (auto simp: sequential_schedule_def)

subsection \<open>The predicted class\<close>

text \<open>
  C1. For every prediction that succeeds, the returned class name is the label of the
  index achieving the largest softmax probability and the confidence is that
  probability; among several largest entries the lowest index is taken. In detail:
  the class map is a JSON object, and there are a position \<open>i\<close> of the row that
  \<^verbatim>\<open>softmax\<close> returned for the forward pass on the preprocessed image and a key of the
  class map such that no entry of the row is larger than the entry at \<open>i\<close>, every
  entry before \<open>i\<close> is strictly smaller, the key is the decimal numeral of \<open>i\<close> (digits
  only, no leading zero, read by \<^verbatim>\<open>int\<close> as \<open>i\<close>), \<^verbatim>\<open>class_name\<close> is the label stored
  under that key and \<^verbatim>\<open>confidence\<close> is the entry at \<open>i\<close>.
\<close>

theorem predict_class_is_first_argmax:
  assumes "succeeded (predict p env keep image_path)"
  shows "\<exists>image_tensor cm i key label.
           preprocess_image env image_path = Some image_tensor \<and>
           class_map p = JObj cm \<and>
           (let probs = softmax_op env (forward env (model p) keep image_tensor) in
              i < length probs \<and>
              (\<forall>k<length probs. probs ! k \<le> probs ! i) \<and>
              (\<forall>k<i. probs ! k < probs ! i) \<and>
              list_all is_digit key \<and>
              (key = ''0'' \<or> hd key \<noteq> CHR ''0'') \<and>
              py_int key = Some (int i) \<and>
              map_of cm key = Some label \<and>
              map_of (predict p env keep image_path) ''class_name'' = Some (py_of_json label) \<and>
              map_of (predict p env keep image_path) ''confidence'' = Some (PyFloat (probs ! i)))"
proof -
  from assms obtain t c i l cm pd where
    pre: "preprocess_image env image_path = Some t" and
    tm: "torch_max (softmax_op env (forward env (model p) keep t)) = Inr (c, i)" and
    cm: "class_map p = JObj cm" and
    lab: "map_of cm (str_nat i) = Some l" and
    res: "predict p env keep image_path =
       [(''success'', PyBool True), (''class_name'', py_of_json l), (''confidence'', PyFloat c),
        (''probabilities'', PyDict (py_dict (take 5 (sorted_reverse pd)))),
        (''all_probabilities'', PyDict pd)]"
    by (rule predict_succeeded_cases)
  note first = torch_max_first[OF tm]
  have key: "list_all is_digit (str_nat i)"
    "str_nat i = ''0'' \<or> hd (str_nat i) \<noteq> CHR ''0''"
    "py_int (str_nat i) = Some (int i)"
    by (rule str_nat_digits, rule str_nat_canonical, rule py_int_str_nat)
  have "map_of (predict p env keep image_path) ''class_name'' = Some (py_of_json l)"
    and "map_of (predict p env keep image_path) ''confidence'' = Some (PyFloat c)"
    by (simp_all add: res)
  with pre cm lab first key show ?thesis
    unfolding Let_def by blast
qed

text \<open>
  Three classes with the logits \<open>0, ln 2, 0\<close>: the probabilities are
  \<open>1/4, 1/2, 1/4\<close>, the class is the one stored under "1" and the confidence is
  \<open>1/2\<close>.
\<close>

theorem predict_class_is_first_argmax_witness:
  "create_predictor (example_env ordered_members [0, ln 2, 0])
     = Inr (example_predictor ordered_members [0, ln 2, 0]) \<and>
   softmax_op (example_env ordered_members [0, ln 2, 0])
     (forward (example_env ordered_members [0, ln 2, 0])
        (model (example_predictor ordered_members [0, ln 2, 0])) [] [0]) = [1 / 4, 1 / 2, 1 / 4] \<and>
   succeeded (predict (example_predictor ordered_members [0, ln 2, 0])
     (example_env ordered_members [0, ln 2, 0]) [] ''img.png'') \<and>
   map_of (predict (example_predictor ordered_members [0, ln 2, 0])
     (example_env ordered_members [0, ln 2, 0]) [] ''img.png'') ''class_name''
     = Some (PyStr ''capacitor'') \<and>
   map_of (predict (example_predictor ordered_members [0, ln 2, 0])
     (example_env ordered_members [0, ln 2, 0]) [] ''img.png'') ''confidence''
     = Some (PyFloat (1 / 2)) \<and>
   (\<exists>image_tensor cm i key label.
      preprocess_image (example_env ordered_members [0, ln 2, 0]) ''img.png'' = Some image_tensor \<and>
      class_map (example_predictor ordered_members [0, ln 2, 0]) = JObj cm \<and>
      (let probs = softmax_op (example_env ordered_members [0, ln 2, 0])
           (forward (example_env ordered_members [0, ln 2, 0])
              (model (example_predictor ordered_members [0, ln 2, 0])) [] image_tensor) in
         i < length probs \<and>
         (\<forall>k<length probs. probs ! k \<le> probs ! i) \<and>
         (\<forall>k<i. probs ! k < probs ! i) \<and>
         list_all is_digit key \<and>
         (key = ''0'' \<or> hd key \<noteq> CHR ''0'') \<and>
         py_int key = Some (int i) \<and>
         map_of cm key = Some label \<and>
         map_of (predict (example_predictor ordered_members [0, ln 2, 0])
           (example_env ordered_members [0, ln 2, 0]) [] ''img.png'') ''class_name''
           = Some (py_of_json label) \<and>
         map_of (predict (example_predictor ordered_members [0, ln 2, 0])
           (example_env ordered_members [0, ln 2, 0]) [] ''img.png'') ''confidence''
           = Some (PyFloat (probs ! i))))"
proof -
  have made: "create_predictor (example_env ordered_members [0, ln 2, 0])
     = Inr (example_predictor ordered_members [0, ln 2, 0])"
    by (rule create_predictor_example) (simp_all add: py_dict_def ordered_members_def)
  have sm: "softmax_op (example_env ordered_members [0, ln 2, 0])
     (forward (example_env ordered_members [0, ln 2, 0])
        (model (example_predictor ordered_members [0, ln 2, 0])) [] [0]) = [1 / 4, 1 / 2, 1 / 4]"
    by (simp add: example_env_def example_predictor_def env_with_fields forward_env_with
        exact_softmax_def)
  have ok: "succeeded (predict (example_predictor ordered_members [0, ln 2, 0])
     (example_env ordered_members [0, ln 2, 0]) [] ''img.png'')"
    by (simp add: eval_defs)
  have cls: "map_of (predict (example_predictor ordered_members [0, ln 2, 0])
     (example_env ordered_members [0, ln 2, 0]) [] ''img.png'') ''class_name''
     = Some (PyStr ''capacitor'')"
    by (simp add: eval_defs)
  have conf: "map_of (predict (example_predictor ordered_members [0, ln 2, 0])
     (example_env ordered_members [0, ln 2, 0]) [] ''img.png'') ''confidence''
     = Some (PyFloat (1 / 2))"
    by (simp add: eval_defs)
  from predict_class_is_first_argmax[OF ok] made sm ok cls conf show ?thesis by blast
qed

subsection \<open>The top-K view\<close>

text \<open>
  C2, as the code has it. For every successful prediction the \<^verbatim>\<open>probabilities\<close> field
  is the first five entries (all of them when there are fewer) of \<^verbatim>\<open>all_probabilities\<close>
  sorted by descending probability, entries of equal probability staying in the order
  of \<^verbatim>\<open>all_probabilities\<close>, which is the iteration order of the class map. When the
  labels are pairwise distinct its length is \<open>min 5 N\<close>.
\<close>

theorem top_k_is_stable_descending_prefix:
  assumes "succeeded (predict p env keep image_path)"
  shows "\<exists>all_probs ranked.
           map_of (predict p env keep image_path) ''all_probabilities'' = Some (PyDict all_probs) \<and>
           map_of (predict p env keep image_path) ''probabilities'' = Some (PyDict (take 5 ranked)) \<and>
           length (take 5 ranked) = min 5 (length all_probs) \<and>
           mset ranked = mset all_probs \<and>
           sorted_wrt (\<lambda>a b. snd b \<le> snd a) ranked \<and>
           (\<forall>v. filter (\<lambda>e. snd e = v) ranked = filter (\<lambda>e. snd e = v) all_probs) \<and>
           (\<exists>cm. class_map p = JObj cm \<and>
              (distinct (map snd cm) \<longrightarrow>
                 map fst all_probs = map snd cm \<and>
                 length (take 5 ranked) = min 5 (length cm)))"
proof -
  from assms obtain t c i l cm pd where
    cm: "class_map p = JObj cm" and
    fill: "fill_prob_dist (softmax_op env (forward env (model p) keep t)) cm [] = Inr pd" and
    res: "predict p env keep image_path =
       [(''success'', PyBool True), (''class_name'', py_of_json l), (''confidence'', PyFloat c),
        (''probabilities'', PyDict (py_dict (take 5 (sorted_reverse pd)))),
        (''all_probabilities'', PyDict pd)]"
    by (rule predict_succeeded_cases)
  let ?ranked = "sorted_reverse pd"
  have dpd: "distinct (map fst pd)"
    using fill_prob_dist_keys[OF fill] by simp
  have "distinct (map fst (take 5 ?ranked))"
    using sorted_reverse_keys_distinct[OF dpd] by (simp add: take_map[symmetric] distinct_take)
  then have top: "py_dict (take 5 ?ranked) = take 5 ?ranked"
    by (rule py_dict_distinct)
  have len: "length ?ranked = length pd"
    using sorted_reverse_mset[of pd] by (metis size_mset)
  have a: "map_of (predict p env keep image_path) ''all_probabilities'' = Some (PyDict pd)"
    by (simp add: res)
  have b: "map_of (predict p env keep image_path) ''probabilities'' = Some (PyDict (take 5 ?ranked))"
    by (simp add: res top)
  have c: "length (take 5 ?ranked) = min 5 (length pd)"
    by (simp add: len min.commute)
  have d: "distinct (map snd cm) \<longrightarrow>
      map fst pd = map snd cm \<and> length (take 5 ?ranked) = min 5 (length cm)"
  proof
    assume "distinct (map snd cm)"
    then have keys: "map fst pd = map snd cm"
      using fill_prob_dist_order[OF fill] by simp
    then have "length pd = length cm" by (metis length_map)
    with keys c show "map fst pd = map snd cm \<and>
        length (take 5 ?ranked) = min 5 (length cm)" by simp
  qed
  from a b c d cm sorted_reverse_mset[of pd] sorted_reverse_descending[of pd]
    sorted_reverse_stable[of _ pd]
  show ?thesis by blast
qed

theorem top_k_is_stable_descending_prefix_witness:
  "succeeded (predict (example_predictor ordered_members [ln 2, 0, 0])
     (example_env ordered_members [ln 2, 0, 0]) [] ''img.png'') \<and>
   map_of (predict (example_predictor ordered_members [ln 2, 0, 0])
     (example_env ordered_members [ln 2, 0, 0]) [] ''img.png'') ''probabilities''
     = Some (PyDict [(JStr ''resistor'', 1 / 2), (JStr ''capacitor'', 1 / 4),
                     (JStr ''inductor'', 1 / 4)]) \<and>
   (\<exists>all_probs ranked.
      map_of (predict (example_predictor ordered_members [ln 2, 0, 0])
        (example_env ordered_members [ln 2, 0, 0]) [] ''img.png'') ''all_probabilities''
        = Some (PyDict all_probs) \<and>
      map_of (predict (example_predictor ordered_members [ln 2, 0, 0])
        (example_env ordered_members [ln 2, 0, 0]) [] ''img.png'') ''probabilities''
        = Some (PyDict (take 5 ranked)) \<and>
      length (take 5 ranked) = min 5 (length all_probs) \<and>
      mset ranked = mset all_probs \<and>
      sorted_wrt (\<lambda>a b. snd b \<le> snd a) ranked \<and>
      (\<forall>v. filter (\<lambda>e. snd e = v) ranked = filter (\<lambda>e. snd e = v) all_probs) \<and>
      (\<exists>cm. class_map (example_predictor ordered_members [ln 2, 0, 0]) = JObj cm \<and>
         (distinct (map snd cm) \<longrightarrow>
            map fst all_probs = map snd cm \<and>
            length (take 5 ranked) = min 5 (length cm))))"
proof -
  have ok: "succeeded (predict (example_predictor ordered_members [ln 2, 0, 0])
     (example_env ordered_members [ln 2, 0, 0]) [] ''img.png'')"
    by (simp add: eval_defs)
  have top: "map_of (predict (example_predictor ordered_members [ln 2, 0, 0])
     (example_env ordered_members [ln 2, 0, 0]) [] ''img.png'') ''probabilities''
     = Some (PyDict [(JStr ''resistor'', 1 / 2), (JStr ''capacitor'', 1 / 4),
                     (JStr ''inductor'', 1 / 4)])"
    by (simp add: eval_defs)
  from top_k_is_stable_descending_prefix[OF ok] ok top show ?thesis by blast
qed

text \<open>
  With the class map stored as "1", "0" and two equal probabilities, the code lists
  class 1 before class 0, where a tie broken by ascending class index lists class 0
  first.
\<close>

theorem top_k_ties_counterexample:
  "create_predictor (example_env swapped_members [0, 0])
     = Inr (example_predictor swapped_members [0, 0]) \<and>
   class_map (example_predictor swapped_members [0, 0]) = JObj swapped_members \<and>
   succeeded (predict (example_predictor swapped_members [0, 0])
     (example_env swapped_members [0, 0]) [] ''img.png'') \<and>
   map_of (predict (example_predictor swapped_members [0, 0])
     (example_env swapped_members [0, 0]) [] ''img.png'') ''probabilities''
     = Some (PyDict [(JStr ''capacitor'', 1 / 2), (JStr ''resistor'', 1 / 2)]) \<and>
   spec_top_k swapped_members (exact_softmax [0, 0])
     = [(JStr ''resistor'', 1 / 2), (JStr ''capacitor'', 1 / 2)]"
proof -
  have "create_predictor (example_env swapped_members [0, 0])
     = Inr (example_predictor swapped_members [0, 0])"
    by (rule create_predictor_example) (simp_all add: py_dict_def swapped_members_def)
  moreover have "class_map (example_predictor swapped_members [0, 0]) = JObj swapped_members"
    by (simp add: example_predictor_def py_dict_def swapped_members_def)
  moreover have "succeeded (predict (example_predictor swapped_members [0, 0])
     (example_env swapped_members [0, 0]) [] ''img.png'')"
    by (simp add: eval_defs)
  moreover have "map_of (predict (example_predictor swapped_members [0, 0])
     (example_env swapped_members [0, 0]) [] ''img.png'') ''probabilities''
     = Some (PyDict [(JStr ''capacitor'', 1 / 2), (JStr ''resistor'', 1 / 2)])"
    by (simp add: eval_defs)
  moreover have "spec_top_k swapped_members (exact_softmax [0, 0])
     = [(JStr ''resistor'', 1 / 2), (JStr ''capacitor'', 1 / 2)]"
    by (simp add: eval_defs spec_top_k_def indexed_labels_def List.map_filter_simps)
  ultimately show ?thesis by blast
qed

subsection \<open>The probability distribution\<close>

text \<open>
  C3. The loop that fills \<^verbatim>\<open>prob_dist\<close> stands under the comment
  \<^verbatim>\<open># Create probability distribution for all classes\<close>, and it keys the dictionary by
  label. With the class map \<^verbatim>\<open>{"0": "resistor", "1": "resistor"}\<close>, which
  initialisation accepts, and the logits \<open>0, 0\<close>, softmax returns \<open>1/2, 1/2\<close>, the
  prediction succeeds, and \<^verbatim>\<open>all_probabilities\<close> is \<^verbatim>\<open>{"resistor": 0.5}\<close>: the second
  class overwrites the first, and the values sum to \<open>1/2\<close>, not to 1 within \<open>1e-4\<close>.
\<close>

theorem shared_label_loses_probability:
  "create_predictor (example_env same_label_members [0, 0])
     = Inr (example_predictor same_label_members [0, 0]) \<and>
   softmax_op (example_env same_label_members [0, 0])
     (forward (example_env same_label_members [0, 0])
        (model (example_predictor same_label_members [0, 0])) [] [0]) = [1 / 2, 1 / 2] \<and>
   succeeded (predict (example_predictor same_label_members [0, 0])
     (example_env same_label_members [0, 0]) [] ''img.png'') \<and>
   map_of (predict (example_predictor same_label_members [0, 0])
     (example_env same_label_members [0, 0]) [] ''img.png'') ''all_probabilities''
     = Some (PyDict [(JStr ''resistor'', 1 / 2)]) \<and>
   \<not> \<bar>sum_list (map snd [(JStr ''resistor'', 1 / 2 :: real)]) - 1\<bar> \<le> 1 / 10000"
proof -
  have "create_predictor (example_env same_label_members [0, 0])
     = Inr (example_predictor same_label_members [0, 0])"
    by (rule create_predictor_example) (simp_all add: py_dict_def same_label_members_def)
  moreover have "softmax_op (example_env same_label_members [0, 0])
     (forward (example_env same_label_members [0, 0])
        (model (example_predictor same_label_members [0, 0])) [] [0]) = [1 / 2, 1 / 2]"
    by (simp add: example_env_def example_predictor_def env_with_fields forward_env_with
        exact_softmax_def)
  moreover have "succeeded (predict (example_predictor same_label_members [0, 0])
     (example_env same_label_members [0, 0]) [] ''img.png'')"
    by (simp add: eval_defs)
  moreover have "map_of (predict (example_predictor same_label_members [0, 0])
     (example_env same_label_members [0, 0]) [] ''img.png'') ''all_probabilities''
     = Some (PyDict [(JStr ''resistor'', 1 / 2)])"
    by (simp add: eval_defs)
  moreover have "\<not> \<bar>sum_list (map snd [(JStr ''resistor'', 1 / 2 :: real)]) - 1\<bar> \<le> 1 / 10000"
    by simp
  ultimately show ?thesis by blast
qed

subsection \<open>Loading the class map\<close>

text \<open>
  C4, as the code has it. Initialisation never looks at the indices of the class map:
  whenever the file at the model path is a checkpoint, the file at the class-map path
  holds a JSON object, and \<^verbatim>\<open>load_state_dict\<close> accepts the checkpoint for the
  architecture built with as many outputs as the loaded object has entries,
  \<^verbatim>\<open>create_predictor\<close> returns a predictor in inference mode whose class map is the
  loaded object, and the first call of \<^verbatim>\<open>get_predictor\<close> stores it as the application's
  predictor, whatever the keys are.
\<close>

theorem init_does_not_check_indices:
  assumes "files env default_model_path = Some (Checkpoint sd)"
    and "files env default_class_map_path = Some (Json (JObj members))"
    and "loaded (JObj members) = JObj cm"
    and "load_state_dict (length cm) sd = Inr net"
  shows "create_predictor env = Inr \<lparr>model = eval_mode net, class_map = JObj cm\<rparr> \<and>
         get_predictor env \<lparr>predictor_ref = None, load_count = n\<rparr>
           = (Inr \<lparr>model = eval_mode net, class_map = JObj cm\<rparr>,
              \<lparr>predictor_ref = Some \<lparr>model = eval_mode net, class_map = JObj cm\<rparr>,
               load_count = n + 1\<rparr>)"
proof -
  have "py_len (loaded (JObj members)) = Inr (length cm)"
    by (simp only: assms(3) py_len.simps)
  from init_predictor_loaded[OF assms(1,2) this assms(4)]
  have "create_predictor env = Inr \<lparr>model = eval_mode net, class_map = JObj cm\<rparr>"
    by (simp only: create_predictor_def assms(3))
  then show ?thesis by (simp add: get_predictor_def)
qed

theorem init_does_not_check_indices_witness:
  "files (example_env gapped_members [0, 0]) default_model_path
     = Some (Checkpoint (example_checkpoint [0, 0])) \<and>
   files (example_env gapped_members [0, 0]) default_class_map_path
     = Some (Json (JObj gapped_members)) \<and>
   loaded (JObj gapped_members) = JObj gapped_members \<and>
   load_state_dict (length gapped_members) (example_checkpoint [0, 0])
     = Inr ((example_net [0, 0])\<lparr>training := True\<rparr>) \<and>
   \<not> contiguous_indices gapped_members \<and>
   create_predictor (example_env gapped_members [0, 0])
     = Inr \<lparr>model = eval_mode ((example_net [0, 0])\<lparr>training := True\<rparr>),
            class_map = JObj gapped_members\<rparr> \<and>
   get_predictor (example_env gapped_members [0, 0]) \<lparr>predictor_ref = None, load_count = 0\<rparr>
     = (Inr \<lparr>model = eval_mode ((example_net [0, 0])\<lparr>training := True\<rparr>),
             class_map = JObj gapped_members\<rparr>,
        \<lparr>predictor_ref = Some \<lparr>model = eval_mode ((example_net [0, 0])\<lparr>training := True\<rparr>),
                                class_map = JObj gapped_members\<rparr>,
         load_count = 0 + 1\<rparr>)"
proof -
  have a: "files (example_env gapped_members [0, 0]) default_model_path
     = Some (Checkpoint (example_checkpoint [0, 0]))"
    by (simp add: example_env_def env_with_fields)
  have b: "files (example_env gapped_members [0, 0]) default_class_map_path
     = Some (Json (JObj gapped_members))"
    by (simp add: example_env_def env_with_fields default_model_path_def
        default_class_map_path_def)
  have c: "loaded (JObj gapped_members) = JObj gapped_members"
    by (simp add: gapped_members_def py_dict_def)
  have "length gapped_members = length [0, 0 :: real]"
    by (simp add: gapped_members_def)
  then have d: "load_state_dict (length gapped_members) (example_checkpoint [0, 0])
     = Inr ((example_net [0, 0])\<lparr>training := True\<rparr>)"
    by (simp only: load_example_checkpoint)
  have "(2::int) \<notin> {0, 1}" by simp
  then have ne: "{0, 2} \<noteq> {0, 1::int}" by blast
  have e: "\<not> contiguous_indices gapped_members"
    by (simp add: contiguous_indices_def indexed_labels_def List.map_filter_simps eval_defs
        upt_rec ne)
  from init_does_not_check_indices[OF a b c d, where n = 0] a b c d e show ?thesis by blast
qed

text \<open>
  The class map with the keys "0" and "2" does not have contiguous indices, and the
  predictor is created and stored as the application's predictor.
\<close>

theorem gapped_class_map_counterexample:
  "\<not> contiguous_indices gapped_members \<and>
   class_map (example_predictor gapped_members [0, 0]) = JObj gapped_members \<and>
   create_predictor (example_env gapped_members [0, 0])
     = Inr (example_predictor gapped_members [0, 0]) \<and>
   get_predictor (example_env gapped_members [0, 0]) \<lparr>predictor_ref = None, load_count = 0\<rparr>
     = (Inr (example_predictor gapped_members [0, 0]),
        \<lparr>predictor_ref = Some (example_predictor gapped_members [0, 0]), load_count = 1\<rparr>)"
proof -
  have "(2::int) \<notin> {0, 1}" by simp
  then have ne: "{0, 2} \<noteq> {0, 1::int}" by blast
  have a: "\<not> contiguous_indices gapped_members"
    by (simp add: contiguous_indices_def indexed_labels_def List.map_filter_simps eval_defs
        upt_rec ne)
  have b: "create_predictor (example_env gapped_members [0, 0])
     = Inr (example_predictor gapped_members [0, 0])"
    by (rule create_predictor_example) (simp_all add: py_dict_def gapped_members_def)
  have c: "class_map (example_predictor gapped_members [0, 0]) = JObj gapped_members"
    by (simp add: example_predictor_def py_dict_def gapped_members_def)
  from a b c show ?thesis by (simp add: get_predictor_def)
qed

subsection \<open>Failures are results\<close>

text \<open>
  C5. For every input, \<^verbatim>\<open>predict\<close> returns a dictionary whose \<^verbatim>\<open>success\<close> field is
  a boolean. When preprocessing fails (no such file, a zero-byte file, bytes the decoder
  rejects) or the ranking raises, \<^verbatim>\<open>success\<close> is false and \<^verbatim>\<open>error\<close> is a non-empty
  string.
\<close>

theorem predict_never_raises:
  "(succeeded (predict p env keep image_path) \<or>
      map_of (predict p env keep image_path) ''success'' = Some (PyBool False)) \<and>
   ((preprocess_image env image_path = None \<or>
     (\<exists>image_tensor e. preprocess_image env image_path = Some image_tensor
        \<and> rank env p (forward env (model p) keep image_tensor) = Inl e))
    \<longrightarrow> map_of (predict p env keep image_path) ''success'' = Some (PyBool False)
      \<and> (\<exists>msg. msg \<noteq> [] \<and> map_of (predict p env keep image_path) ''error'' = Some (PyStr msg)))"
proof (cases rule: predict_cases[of env image_path p keep])
  case preprocess
  then show ?thesis by (simp add: failure_result_fields)
next
  case (raised t e)
  then show ?thesis
    using rank_error_message[of env p "forward env (model p) keep t" e]
    by (simp add: failure_result_fields)
next
  case (returned t result)
  then show ?thesis using rank_succeeded[of env p "forward env (model p) keep t" result] by simp
qed

theorem predict_never_raises_witness:
  "preprocess_image (example_env ordered_members [0, 0, 0]) ''empty.png'' = None \<and>
   preprocess_image (example_env ordered_members [0, 0, 0]) ''missing.png'' = None \<and>
   map_of (predict (example_predictor ordered_members [0, 0, 0])
     (example_env ordered_members [0, 0, 0]) [] ''empty.png'') ''success'' = Some (PyBool False) \<and>
   (\<exists>msg. msg \<noteq> [] \<and> map_of (predict (example_predictor ordered_members [0, 0, 0])
     (example_env ordered_members [0, 0, 0]) [] ''empty.png'') ''error'' = Some (PyStr msg)) \<and>
   map_of (predict (example_predictor ordered_members [0, 0, 0])
     (example_env ordered_members [0, 0, 0]) [] ''missing.png'') ''success'' = Some (PyBool False) \<and>
   (\<exists>msg. msg \<noteq> [] \<and> map_of (predict (example_predictor ordered_members [0, 0, 0])
     (example_env ordered_members [0, 0, 0]) [] ''missing.png'') ''error'' = Some (PyStr msg))"
proof -
  have a: "preprocess_image (example_env ordered_members [0, 0, 0]) ''empty.png'' = None"
    by (simp add: preprocess_image_def example_env_def env_with_fields default_model_path_def
        default_class_map_path_def)
  have b: "preprocess_image (example_env ordered_members [0, 0, 0]) ''missing.png'' = None"
    by (simp add: preprocess_image_def example_env_def env_with_fields default_model_path_def
        default_class_map_path_def)
  from a b
    predict_never_raises[of "example_predictor ordered_members [0, 0, 0]"
      "example_env ordered_members [0, 0, 0]" "[]" "''empty.png''"]
    predict_never_raises[of "example_predictor ordered_members [0, 0, 0]"
      "example_env ordered_members [0, 0, 0]" "[]" "''missing.png''"]
  show ?thesis by blast
qed

subsection \<open>The shape of a result\<close>

text \<open>
  C6, as the code has it. Every result of \<^verbatim>\<open>predict\<close> has one of two shapes. A result
  that did not succeed is exactly \<^verbatim>\<open>success\<close> false, \<^verbatim>\<open>error\<close> a string, \<^verbatim>\<open>class_name\<close>
  \<^verbatim>\<open>None\<close>, \<^verbatim>\<open>confidence\<close> 0.0 and \<^verbatim>\<open>probabilities\<close> the empty dictionary: it has no
  \<^verbatim>\<open>all_probabilities\<close> field. A result that succeeded is exactly \<^verbatim>\<open>success\<close> true,
  \<^verbatim>\<open>class_name\<close>, \<^verbatim>\<open>confidence\<close>, \<^verbatim>\<open>probabilities\<close> and \<^verbatim>\<open>all_probabilities\<close>: it has no
  \<^verbatim>\<open>error\<close> field, the class map is a JSON object, \<^verbatim>\<open>class_name\<close> is one of the labels
  stored in it, \<^verbatim>\<open>confidence\<close> is one of the probabilities that \<^verbatim>\<open>softmax\<close> returned
  for the image, and \<^verbatim>\<open>all_probabilities\<close> has exactly one entry for every distinct
  label of the class map.
\<close>

theorem predict_result_shape:
  "(\<not> succeeded (predict p env keep image_path) \<longrightarrow>
      (\<exists>msg. predict p env keep image_path =
         [(''success'', PyBool False), (''error'', PyStr msg), (''class_name'', PyNone),
          (''confidence'', PyFloat 0), (''probabilities'', PyDict [])])) \<and>
   (succeeded (predict p env keep image_path) \<longrightarrow>
      (\<exists>image_tensor cm label confidence top_k all_probs.
         preprocess_image env image_path = Some image_tensor \<and>
         class_map p = JObj cm \<and>
         predict p env keep image_path =
           [(''success'', PyBool True), (''class_name'', py_of_json label),
            (''confidence'', PyFloat confidence), (''probabilities'', PyDict top_k),
            (''all_probabilities'', PyDict all_probs)] \<and>
         label \<in> set (map snd cm) \<and>
         confidence \<in> set (softmax_op env (forward env (model p) keep image_tensor)) \<and>
         distinct (map fst all_probs) \<and>
         set (map fst all_probs) = set (map snd cm)))"
proof (cases "succeeded (predict p env keep image_path)")
  case True
  then obtain t c i l cm pd where
    pre: "preprocess_image env image_path = Some t" and
    tm: "torch_max (softmax_op env (forward env (model p) keep t)) = Inr (c, i)" and
    cm: "class_map p = JObj cm" and
    lab: "map_of cm (str_nat i) = Some l" and
    fill: "fill_prob_dist (softmax_op env (forward env (model p) keep t)) cm [] = Inr pd" and
    res: "predict p env keep image_path =
       [(''success'', PyBool True), (''class_name'', py_of_json l), (''confidence'', PyFloat c),
        (''probabilities'', PyDict (py_dict (take 5 (sorted_reverse pd)))),
        (''all_probabilities'', PyDict pd)]"
    by (rule predict_succeeded_cases)
  from torch_max_first[OF tm] have conf: "c \<in> set (softmax_op env (forward env (model p) keep t))"
    by (metis nth_mem)
  from lab have l: "l \<in> set (map snd cm)"
    by (metis map_of_SomeD set_zip_rightD zip_map_fst_snd)
  from fill_prob_dist_keys[OF fill]
  have keys: "distinct (map fst pd)" "set (map fst pd) = set (map snd cm)"
    by simp_all
  from True pre cm res l conf keys show ?thesis by blast
next
  case False
  then show ?thesis
  proof (cases rule: predict_cases[of env image_path p keep])
    case preprocess
    with False show ?thesis by (simp add: failure_result_def)
  next
    case (raised t e)
    with False show ?thesis by (simp add: failure_result_def)
  next
    case (returned t result)
    with False rank_succeeded[of env p "forward env (model p) keep t" result] show ?thesis by simp
  qed
qed

theorem predict_result_shape_witness:
  "succeeded (predict (example_predictor ordered_members [0, ln 2, 0])
     (example_env ordered_members [0, ln 2, 0]) [] ''img.png'') \<and>
   predict (example_predictor ordered_members [0, ln 2, 0])
     (example_env ordered_members [0, ln 2, 0]) [] ''img.png''
     = [(''success'', PyBool True), (''class_name'', PyStr ''capacitor''),
        (''confidence'', PyFloat (1 / 2)),
        (''probabilities'', PyDict [(JStr ''capacitor'', 1 / 2), (JStr ''resistor'', 1 / 4),
                                   (JStr ''inductor'', 1 / 4)]),
        (''all_probabilities'', PyDict [(JStr ''resistor'', 1 / 4), (JStr ''capacitor'', 1 / 2),
                                       (JStr ''inductor'', 1 / 4)])] \<and>
   (\<exists>image_tensor cm label confidence top_k all_probs.
      preprocess_image (example_env ordered_members [0, ln 2, 0]) ''img.png'' = Some image_tensor \<and>
      class_map (example_predictor ordered_members [0, ln 2, 0]) = JObj cm \<and>
      predict (example_predictor ordered_members [0, ln 2, 0])
        (example_env ordered_members [0, ln 2, 0]) [] ''img.png'' =
        [(''success'', PyBool True), (''class_name'', py_of_json label),
         (''confidence'', PyFloat confidence), (''probabilities'', PyDict top_k),
         (''all_probabilities'', PyDict all_probs)] \<and>
      label \<in> set (map snd cm) \<and>
      confidence \<in> set (softmax_op (example_env ordered_members [0, ln 2, 0])
        (forward (example_env ordered_members [0, ln 2, 0])
           (model (example_predictor ordered_members [0, ln 2, 0])) [] image_tensor)) \<and>
      distinct (map fst all_probs) \<and>
      set (map fst all_probs) = set (map snd cm)) \<and>
   \<not> succeeded (predict (example_predictor ordered_members [0, ln 2, 0])
     (example_env ordered_members [0, ln 2, 0]) [] ''empty.png'') \<and>
   (\<exists>msg. predict (example_predictor ordered_members [0, ln 2, 0])
      (example_env ordered_members [0, ln 2, 0]) [] ''empty.png'' =
      [(''success'', PyBool False), (''error'', PyStr msg), (''class_name'', PyNone),
       (''confidence'', PyFloat 0), (''probabilities'', PyDict [])])"
proof -
  have ok: "succeeded (predict (example_predictor ordered_members [0, ln 2, 0])
     (example_env ordered_members [0, ln 2, 0]) [] ''img.png'')"
    by (simp add: eval_defs)
  have val: "predict (example_predictor ordered_members [0, ln 2, 0])
     (example_env ordered_members [0, ln 2, 0]) [] ''img.png''
     = [(''success'', PyBool True), (''class_name'', PyStr ''capacitor''),
        (''confidence'', PyFloat (1 / 2)),
        (''probabilities'', PyDict [(JStr ''capacitor'', 1 / 2), (JStr ''resistor'', 1 / 4),
                                   (JStr ''inductor'', 1 / 4)]),
        (''all_probabilities'', PyDict [(JStr ''resistor'', 1 / 4), (JStr ''capacitor'', 1 / 2),
                                       (JStr ''inductor'', 1 / 4)])]"
    by (simp add: eval_defs)
  from predict_result_shape[of "example_predictor ordered_members [0, ln 2, 0]"
      "example_env ordered_members [0, ln 2, 0]" "[]" "''img.png''"] ok
  have "\<exists>image_tensor cm label confidence top_k all_probs.
      preprocess_image (example_env ordered_members [0, ln 2, 0]) ''img.png'' = Some image_tensor \<and>
      class_map (example_predictor ordered_members [0, ln 2, 0]) = JObj cm \<and>
      predict (example_predictor ordered_members [0, ln 2, 0])
        (example_env ordered_members [0, ln 2, 0]) [] ''img.png'' =
        [(''success'', PyBool True), (''class_name'', py_of_json label),
         (''confidence'', PyFloat confidence), (''probabilities'', PyDict top_k),
         (''all_probabilities'', PyDict all_probs)] \<and>
      label \<in> set (map snd cm) \<and>
      confidence \<in> set (softmax_op (example_env ordered_members [0, ln 2, 0])
        (forward (example_env ordered_members [0, ln 2, 0])
           (model (example_predictor ordered_members [0, ln 2, 0])) [] image_tensor)) \<and>
      distinct (map fst all_probs) \<and>
      set (map fst all_probs) = set (map snd cm)"
    by blast
  moreover have failed: "\<not> succeeded (predict (example_predictor ordered_members [0, ln 2, 0])
     (example_env ordered_members [0, ln 2, 0]) [] ''empty.png'')"
    by (simp add: eval_defs)
  moreover from predict_result_shape[of "example_predictor ordered_members [0, ln 2, 0]"
      "example_env ordered_members [0, ln 2, 0]" "[]" "''empty.png''"] failed
  have "\<exists>msg. predict (example_predictor ordered_members [0, ln 2, 0])
      (example_env ordered_members [0, ln 2, 0]) [] ''empty.png'' =
      [(''success'', PyBool False), (''error'', PyStr msg), (''class_name'', PyNone),
       (''confidence'', PyFloat 0), (''probabilities'', PyDict [])]"
    by blast
  ultimately show ?thesis using ok val by blast
qed

text \<open>
  A failed prediction over a class map of three classes returns five fields, none of
  them \<^verbatim>\<open>all_probabilities\<close>.
\<close>

theorem failure_result_shape_counterexample:
  "create_predictor (example_env ordered_members [0, 0, 0])
     = Inr (example_predictor ordered_members [0, 0, 0]) \<and>
   class_map (example_predictor ordered_members [0, 0, 0]) = JObj ordered_members \<and>
   predict (example_predictor ordered_members [0, 0, 0])
     (example_env ordered_members [0, 0, 0]) [] ''missing.png''
     = [(''success'', PyBool False), (''error'', PyStr ''Failed to preprocess image''),
        (''class_name'', PyNone), (''confidence'', PyFloat 0), (''probabilities'', PyDict [])] \<and>
   map_of (predict (example_predictor ordered_members [0, 0, 0])
     (example_env ordered_members [0, 0, 0]) [] ''missing.png'') ''all_probabilities'' = None"
proof -
  have "create_predictor (example_env ordered_members [0, 0, 0])
     = Inr (example_predictor ordered_members [0, 0, 0])"
    by (rule create_predictor_example) (simp_all add: py_dict_def ordered_members_def)
  moreover have "class_map (example_predictor ordered_members [0, 0, 0]) = JObj ordered_members"
    by (simp add: example_predictor_def py_dict_def ordered_members_def)
  moreover have "predict (example_predictor ordered_members [0, 0, 0])
     (example_env ordered_members [0, 0, 0]) [] ''missing.png''
     = [(''success'', PyBool False), (''error'', PyStr ''Failed to preprocess image''),
        (''class_name'', PyNone), (''confidence'', PyFloat 0), (''probabilities'', PyDict [])]"
    by (simp add: predict_def preprocess_image_def example_env_def env_with_fields
        default_model_path_def default_class_map_path_def failure_result_def)
  ultimately show ?thesis by simp
qed

subsection \<open>The class information\<close>

text \<open>
  C7, as the code has it. For a predictor initialised from a class-map file that holds
  a JSON object, \<^verbatim>\<open>get_class_info\<close> succeeds and \<^verbatim>\<open>classes\<close> lists the values of the
  loaded class map in its stored order: one entry for every distinct key of the file,
  the keys in the order of their first occurrence, each with the value of its last
  occurrence. When the keys of the file are pairwise distinct, that is the file's order
  of values. When the key at every position \<open>i\<close> of the file is read by \<^verbatim>\<open>int\<close> as \<open>i\<close>,
  it is the order of ascending class index.
\<close>

theorem classes_follow_stored_order:
  assumes "init_predictor env model_path class_map_path = Inr p"
    and "files env class_map_path = Some (Json (JObj members))"
  shows "\<exists>info cm.
           get_class_info p = Inr info \<and>
           class_map p = JObj cm \<and>
           classes info = map snd cm \<and>
           map fst cm = rev (remdups (rev (map fst members))) \<and>
           map_of cm = map_of (rev (map (\<lambda>e. (fst e, loaded (snd e))) members)) \<and>
           (distinct (map fst members) \<longrightarrow>
              classes info = map (\<lambda>e. loaded (snd e)) members) \<and>
           (list_all2 (\<lambda>key i. py_int key = Some (int i)) (map fst members) [0..<length members]
              \<longrightarrow> classes info = labels_by_index cm)"
proof -
  let ?members = "map (\<lambda>e. (fst e, loaded (snd e))) members"
  let ?cm = "py_dict ?members"
  have keys: "map fst ?members = map fst members" by (simp add: comp_def)
  from assms(1) obtain v where
    "files env class_map_path = Some (Json v)" "class_map p = loaded v"
    by (rule init_predictor_Inr)
  with assms(2) have cm: "class_map p = JObj ?cm" by simp
  have info: "get_class_info p
      = Inr \<lparr>num_classes = length ?cm, classes = map snd ?cm, class_mapping = JObj ?cm\<rparr>"
    by (rule get_class_info_dict[OF cm])
  have order: "map fst ?cm = rev (remdups (rev (map fst members)))"
    using keys_py_dict[of ?members] by (simp only: keys)
  have vals: "map_of ?cm = map_of (rev ?members)"
    by (rule map_of_py_dict)
  have same: "distinct (map fst members) \<Longrightarrow> ?cm = ?members"
    by (rule py_dict_distinct) (simp only: keys)
  have file_order: "distinct (map fst members) \<longrightarrow>
      map snd ?cm = map (\<lambda>e. loaded (snd e)) members"
    using same by (simp add: comp_def)
  have ascending: "list_all2 (\<lambda>key i. py_int key = Some (int i)) (map fst members)
      [0..<length members] \<longrightarrow> map snd ?cm = labels_by_index ?cm"
  proof
    assume a: "list_all2 (\<lambda>key i. py_int key = Some (int i)) (map fst members)
      [0..<length members]"
    then have "distinct (map fst members)"
      using keys_in_order_distinct[of "map fst members"] by simp
    then have eq: "?cm = ?members" by (rule same)
    have "list_all2 (\<lambda>key i. py_int key = Some (int i)) (map fst ?cm) [0..<length ?cm]"
      using a by (simp only: eq keys length_map)
    then show "map snd ?cm = labels_by_index ?cm"
      by (simp only: labels_by_index_ascending)
  qed
  from info cm order vals file_order ascending show ?thesis by auto
qed

theorem classes_follow_stored_order_witness:
  "init_predictor (example_env two_members [0, 0]) default_model_path default_class_map_path
     = Inr (example_predictor two_members [0, 0]) \<and>
   files (example_env two_members [0, 0]) default_class_map_path
     = Some (Json (JObj two_members)) \<and>
   distinct (map fst two_members) \<and>
   list_all2 (\<lambda>key i. py_int key = Some (int i)) (map fst two_members)
     [0..<length two_members] \<and>
   get_class_info (example_predictor two_members [0, 0])
     = Inr \<lparr>num_classes = 2, classes = [JStr ''resistor'', JStr ''capacitor''],
            class_mapping = JObj two_members\<rparr> \<and>
   labels_by_index two_members = [JStr ''resistor'', JStr ''capacitor''] \<and>
   (\<exists>info cm.
      get_class_info (example_predictor two_members [0, 0]) = Inr info \<and>
      class_map (example_predictor two_members [0, 0]) = JObj cm \<and>
      classes info = map snd cm \<and>
      map fst cm = rev (remdups (rev (map fst two_members))) \<and>
      map_of cm = map_of (rev (map (\<lambda>e. (fst e, loaded (snd e))) two_members)) \<and>
      (distinct (map fst two_members) \<longrightarrow>
         classes info = map (\<lambda>e. loaded (snd e)) two_members) \<and>
      (list_all2 (\<lambda>key i. py_int key = Some (int i)) (map fst two_members)
         [0..<length two_members]
         \<longrightarrow> classes info = labels_by_index cm))"
proof -
  have a: "init_predictor (example_env two_members [0, 0]) default_model_path
      default_class_map_path = Inr (example_predictor two_members [0, 0])"
    unfolding create_predictor_def[symmetric]
    by (rule create_predictor_example) (simp_all add: py_dict_def two_members_def)
  have b: "files (example_env two_members [0, 0]) default_class_map_path
     = Some (Json (JObj two_members))"
    by (simp add: example_env_def env_with_fields default_model_path_def
        default_class_map_path_def)
  have c: "get_class_info (example_predictor two_members [0, 0])
     = Inr \<lparr>num_classes = 2, classes = [JStr ''resistor'', JStr ''capacitor''],
            class_mapping = JObj two_members\<rparr>"
    by (simp add: get_class_info_def bind_exc_def example_predictor_def py_dict_def
        two_members_def)
  have d: "distinct (map fst two_members)"
    by (simp add: two_members_def)
  have e: "list_all2 (\<lambda>key i. py_int key = Some (int i)) (map fst two_members)
     [0..<length two_members]"
    by (simp add: eval_defs upt_rec)
  have f: "labels_by_index two_members = [JStr ''resistor'', JStr ''capacitor'']"
    by (simp add: labels_by_index_def indexed_labels_def List.map_filter_simps eval_defs)
  from classes_follow_stored_order[OF a b] a b c d e f show ?thesis by blast
qed

text \<open>
  For the class map stored as "1", "0" the labels come in file order, not by ascending
  class index. A class-map file that holds a JSON array of two labels initialises with
  a checkpoint of two classes, and \<^verbatim>\<open>get_class_info\<close> then raises.
\<close>

theorem classes_order_counterexample:
  "create_predictor (example_env swapped_members [0, 0])
     = Inr (example_predictor swapped_members [0, 0]) \<and>
   class_map (example_predictor swapped_members [0, 0]) = JObj swapped_members \<and>
   get_class_info (example_predictor swapped_members [0, 0])
     = Inr \<lparr>num_classes = 2, classes = [JStr ''capacitor'', JStr ''resistor''],
            class_mapping = JObj swapped_members\<rparr> \<and>
   labels_by_index swapped_members = [JStr ''resistor'', JStr ''capacitor''] \<and>
   create_predictor (env_with (JArr [JStr ''capacitor'', JStr ''resistor''])
       (example_checkpoint [0, 0]))
     = Inr \<lparr>model = example_net [0, 0],
            class_map = JArr [JStr ''capacitor'', JStr ''resistor'']\<rparr> \<and>
   get_class_info \<lparr>model = example_net [0, 0],
       class_map = JArr [JStr ''capacitor'', JStr ''resistor'']\<rparr>
     = Inl (AttributeError ''object has no attribute values'')"
proof -
  have "py_len (loaded (JArr [JStr ''capacitor'', JStr ''resistor''])) = Inr (length [0, 0 :: real])"
    by simp
  from create_predictor_env_with[OF this]
  have arr: "create_predictor (env_with (JArr [JStr ''capacitor'', JStr ''resistor''])
       (example_checkpoint [0, 0]))
     = Inr \<lparr>model = example_net [0, 0],
            class_map = JArr [JStr ''capacitor'', JStr ''resistor'']\<rparr>"
    by simp
  have raised: "get_class_info \<lparr>model = example_net [0, 0],
       class_map = JArr [JStr ''capacitor'', JStr ''resistor'']\<rparr>
     = Inl (AttributeError ''object has no attribute values'')"
    by (simp add: get_class_info_def bind_exc_def)
  have "create_predictor (example_env swapped_members [0, 0])
     = Inr (example_predictor swapped_members [0, 0])"
    by (rule create_predictor_example) (simp_all add: py_dict_def swapped_members_def)
  moreover have "class_map (example_predictor swapped_members [0, 0]) = JObj swapped_members"
    by (simp add: example_predictor_def py_dict_def swapped_members_def)
  moreover have "get_class_info (example_predictor swapped_members [0, 0])
     = Inr \<lparr>num_classes = 2, classes = [JStr ''capacitor'', JStr ''resistor''],
            class_mapping = JObj swapped_members\<rparr>"
    by (simp add: get_class_info_def bind_exc_def example_predictor_def py_dict_def
        swapped_members_def)
  moreover have "labels_by_index swapped_members = [JStr ''resistor'', JStr ''capacitor'']"
    by (simp add: labels_by_index_def indexed_labels_def List.map_filter_simps eval_defs)
  ultimately show ?thesis using arr raised by simp
qed

text \<open>
  C10, as the code has it. After a successful initialisation from a class-map file that
  holds a JSON object, \<^verbatim>\<open>get_class_info\<close> does not fail and returns a consistent view:
  \<^verbatim>\<open>class_mapping\<close> is the class map, a dictionary; \<^verbatim>\<open>num_classes\<close> is the number of its
  entries; \<^verbatim>\<open>classes\<close> has \<^verbatim>\<open>num_classes\<close> elements and is the sequence of the values of
  \<^verbatim>\<open>class_mapping\<close> in iteration order.
\<close>

theorem get_class_info_consistent:
  assumes "init_predictor env model_path class_map_path = Inr p"
    and "files env class_map_path = Some (Json (JObj members))"
  shows "\<exists>info cm.
           get_class_info p = Inr info \<and>
           class_mapping info = class_map p \<and>
           class_mapping info = JObj cm \<and>
           distinct (map fst cm) \<and>
           num_classes info = length cm \<and>
           length (classes info) = num_classes info \<and>
           classes info = map snd cm"
proof -
  let ?cm = "py_dict (map (\<lambda>e. (fst e, loaded (snd e))) members)"
  from assms(1) obtain v where
    "files env class_map_path = Some (Json v)" "class_map p = loaded v"
    by (rule init_predictor_Inr)
  with assms(2) have cm: "class_map p = JObj ?cm" by simp
  have "get_class_info p
      = Inr \<lparr>num_classes = length ?cm, classes = map snd ?cm, class_mapping = JObj ?cm\<rparr>"
    by (rule get_class_info_dict[OF cm])
  moreover have "distinct (map fst ?cm)" by (rule py_dict_keys_distinct)
  ultimately show ?thesis using cm by simp
qed

theorem get_class_info_consistent_witness:
  "init_predictor (example_env ordered_members [0, 0, 0]) default_model_path default_class_map_path
     = Inr (example_predictor ordered_members [0, 0, 0]) \<and>
   files (example_env ordered_members [0, 0, 0]) default_class_map_path
     = Some (Json (JObj ordered_members)) \<and>
   get_class_info (example_predictor ordered_members [0, 0, 0])
     = Inr \<lparr>num_classes = 3,
            classes = [JStr ''resistor'', JStr ''capacitor'', JStr ''inductor''],
            class_mapping = JObj ordered_members\<rparr> \<and>
   (\<exists>info cm.
      get_class_info (example_predictor ordered_members [0, 0, 0]) = Inr info \<and>
      class_mapping info = class_map (example_predictor ordered_members [0, 0, 0]) \<and>
      class_mapping info = JObj cm \<and>
      distinct (map fst cm) \<and>
      num_classes info = length cm \<and>
      length (classes info) = num_classes info \<and>
      classes info = map snd cm)"
proof -
  have a: "init_predictor (example_env ordered_members [0, 0, 0]) default_model_path
      default_class_map_path = Inr (example_predictor ordered_members [0, 0, 0])"
    unfolding create_predictor_def[symmetric]
    by (rule create_predictor_example) (simp_all add: py_dict_def ordered_members_def)
  have b: "files (example_env ordered_members [0, 0, 0]) default_class_map_path
     = Some (Json (JObj ordered_members))"
    by (simp add: example_env_def env_with_fields default_model_path_def
        default_class_map_path_def)
  have c: "get_class_info (example_predictor ordered_members [0, 0, 0])
     = Inr \<lparr>num_classes = 3,
            classes = [JStr ''resistor'', JStr ''capacitor'', JStr ''inductor''],
            class_mapping = JObj ordered_members\<rparr>"
    by (simp add: get_class_info_def bind_exc_def example_predictor_def py_dict_def
        ordered_members_def)
  from get_class_info_consistent[OF a b] a b c show ?thesis by blast
qed

text \<open>
  A class-map file that holds the JSON array \<^verbatim>\<open>["resistor", "capacitor"]\<close> initialises
  with a checkpoint of two classes (\<^verbatim>\<open>len\<close> of the list is 2), and \<^verbatim>\<open>get_class_info\<close>
  then raises: a list has no \<^verbatim>\<open>values\<close>.
\<close>

theorem label_array_counterexample:
  "create_predictor (env_with label_array (example_checkpoint [0, 0]))
     = Inr \<lparr>model = example_net [0, 0], class_map = label_array\<rparr> \<and>
   label_array = JArr [JStr ''resistor'', JStr ''capacitor''] \<and>
   get_class_info \<lparr>model = example_net [0, 0], class_map = label_array\<rparr>
     = Inl (AttributeError ''object has no attribute values'')"
proof -
  have l: "loaded label_array = label_array"
    by (simp add: label_array_def)
  have "py_len (loaded label_array) = Inr (length [0, 0 :: real])"
    by (simp add: label_array_def)
  from create_predictor_env_with[OF this]
  have "create_predictor (env_with label_array (example_checkpoint [0, 0]))
     = Inr \<lparr>model = example_net [0, 0], class_map = label_array\<rparr>"
    by (simp only: l)
  moreover have "get_class_info \<lparr>model = example_net [0, 0], class_map = label_array\<rparr>
     = Inl (AttributeError ''object has no attribute values'')"
    by (simp add: get_class_info_def bind_exc_def label_array_def)
  ultimately show ?thesis by (simp add: label_array_def)
qed

subsection \<open>Determinism\<close>

text \<open>
  C8. An initialised predictor is in inference mode, where dropout is the identity:
  for the same predictor, files, decoder and image path, two calls of \<^verbatim>\<open>predict\<close> return
  the same result, in particular the same \<^verbatim>\<open>all_probabilities\<close>, whatever random
  keep-masks the two calls draw.
\<close>

theorem predict_ignores_dropout_mask:
  assumes "init_predictor env0 model_path class_map_path = Inr p"
  shows "\<not> training (model p) \<and>
         predict p env keep1 image_path = predict p env keep2 image_path \<and>
         map_of (predict p env keep1 image_path) ''all_probabilities''
           = map_of (predict p env keep2 image_path) ''all_probabilities''"
proof -
  from assms have t: "\<not> training (model p)" by (rule init_predictor_Inr)
  have "forward env (model p) keep1 x = forward env (model p) keep2 x" for x
    by (rule forward_eval_mode[OF t])
  then have "predict p env keep1 image_path = predict p env keep2 image_path"
    by (cases "preprocess_image env image_path") (simp_all add: predict_def)
  with t show ?thesis by simp
qed

text \<open>
  A network whose 512 hidden units are all active. In training mode the mask that
  keeps every unit doubles the first logit (\<open>ln 4\<close>, probabilities \<open>4/5, 1/5\<close>) and the
  mask that drops every unit zeroes it (probabilities \<open>1/2, 1/2\<close>); the initialised
  predictor returns \<open>2/3, 1/3\<close> under both masks.
\<close>

theorem predict_ignores_dropout_mask_witness:
  "init_predictor active_env default_model_path default_class_map_path = Inr active_predictor \<and>
   forward active_env ((model active_predictor)\<lparr>training := True\<rparr>) (replicate 512 True) [0]
     = [ln 4, 0] \<and>
   forward active_env ((model active_predictor)\<lparr>training := True\<rparr>) (replicate 512 False) [0]
     = [0, 0] \<and>
   map_of (predict (active_predictor\<lparr>model := (model active_predictor)\<lparr>training := True\<rparr>\<rparr>)
       active_env (replicate 512 True) ''img.png'') ''all_probabilities''
     = Some (PyDict [(JStr ''resistor'', 4 / 5), (JStr ''capacitor'', 1 / 5)]) \<and>
   map_of (predict (active_predictor\<lparr>model := (model active_predictor)\<lparr>training := True\<rparr>\<rparr>)
       active_env (replicate 512 False) ''img.png'') ''all_probabilities''
     = Some (PyDict [(JStr ''resistor'', 1 / 2), (JStr ''capacitor'', 1 / 2)]) \<and>
   \<not> training (model active_predictor) \<and>
   predict active_predictor active_env (replicate 512 True) ''img.png''
     = predict active_predictor active_env (replicate 512 False) ''img.png'' \<and>
   map_of (predict active_predictor active_env (replicate 512 True) ''img.png'')
       ''all_probabilities''
     = Some (PyDict [(JStr ''resistor'', 2 / 3), (JStr ''capacitor'', 1 / 3)]) \<and>
   map_of (predict active_predictor active_env (replicate 512 False) ''img.png'')
       ''all_probabilities''
     = Some (PyDict [(JStr ''resistor'', 2 / 3), (JStr ''capacitor'', 1 / 3)])"
proof -
  have a: "init_predictor active_env default_model_path default_class_map_path
      = Inr active_predictor"
    unfolding create_predictor_def[symmetric] by (rule create_predictor_active)
  have kept: "forward active_env ((model active_predictor)\<lparr>training := True\<rparr>)
      (replicate 512 True) [0] = [ln 4, 0]"
    by (simp add: active_env_def active_predictor_def forward_active_net_kept)
  have dropped: "forward active_env ((model active_predictor)\<lparr>training := True\<rparr>)
      (replicate 512 False) [0] = [0, 0]"
    by (simp add: active_env_def active_predictor_def forward_active_net_dropped)
  have tk: "map_of (predict (active_predictor\<lparr>model := (model active_predictor)\<lparr>training := True\<rparr>\<rparr>)
       active_env (replicate 512 True) ''img.png'') ''all_probabilities''
     = Some (PyDict [(JStr ''resistor'', 4 / 5), (JStr ''capacitor'', 1 / 5)])"
    by (simp add: active_env_def active_predictor_def forward_active_net_kept eval_defs)
  have td: "map_of (predict (active_predictor\<lparr>model := (model active_predictor)\<lparr>training := True\<rparr>\<rparr>)
       active_env (replicate 512 False) ''img.png'') ''all_probabilities''
     = Some (PyDict [(JStr ''resistor'', 1 / 2), (JStr ''capacitor'', 1 / 2)])"
    by (simp add: active_env_def active_predictor_def forward_active_net_dropped eval_defs)
  have ev: "map_of (predict active_predictor active_env (replicate 512 True) ''img.png'')
       ''all_probabilities''
     = Some (PyDict [(JStr ''resistor'', 2 / 3), (JStr ''capacitor'', 1 / 3)])"
    by (simp add: active_env_def active_predictor_def forward_active_net eval_defs)
  from predict_ignores_dropout_mask[OF a, of active_env "replicate 512 True" "''img.png''"
      "replicate 512 False"] a kept dropped tk td ev
  show ?thesis by simp
qed

subsection \<open>Lazy initialisation\<close>

text \<open>
  The steps of a thread are those of \<^verbatim>\<open>get_predictor\<close>, and calls that do not overlap
  create the predictor once.
\<close>

lemma thread_runs_get_predictor:
  "run_schedule env [0, 0] (st, [AtTest])
     = (snd (get_predictor env st), [Returned (fst (get_predictor env st))])"
  by (cases "predictor_ref st"; cases "create_predictor env") (simp_all add: get_predictor_def)

lemma non_overlapping_calls_load_once:
  assumes "create_predictor env = Inr p"
  shows "run_schedule env (sequential_schedule n)
           (\<lparr>predictor_ref = None, load_count = 0\<rparr>, replicate n AtTest)
         = (\<lparr>predictor_ref = (if n = 0 then None else Some p), load_count = min n 1\<rparr>,
            replicate n (Returned (Inr p)))"
proof (induction n)
  case 0
  then show ?case by (simp add: sequential_schedule_def)
next
  case (Suc n)
  let ?start = "\<lparr>predictor_ref = None, load_count = 0\<rparr>"
  let ?mid = "\<lparr>predictor_ref = (if n = 0 then None else Some p), load_count = min n 1\<rparr>"
  have b: "\<forall>i\<in>set (sequential_schedule n). i < length (replicate n AtTest)"
    using sequential_schedule_bound[of n] by simp
  have "run_schedule env (sequential_schedule n) (?start, replicate n AtTest @ [AtTest])
      = (?mid, replicate n (Returned (Inr p)) @ [AtTest])"
    using run_schedule_extra[OF b, of env ?start "[AtTest]"] Suc.IH by simp
  then have first: "run_schedule env (sequential_schedule n) (?start, replicate (Suc n) AtTest)
      = (?mid, replicate n (Returned (Inr p)) @ [AtTest])"
    by (simp add: replicate_append_same)
  have last: "run_schedule env [n, n] (?mid, replicate n (Returned (Inr p)) @ [AtTest])
      = (\<lparr>predictor_ref = Some p, load_count = 1\<rparr>,
         replicate n (Returned (Inr p)) @ [Returned (Inr p)])"
    using assms by (cases "n = 0") (simp_all add: nth_append list_update_append)
  have "run_schedule env (sequential_schedule (Suc n)) (?start, replicate (Suc n) AtTest)
      = run_schedule env [n, n]
          (run_schedule env (sequential_schedule n) (?start, replicate (Suc n) AtTest))"
    by (simp only: sequential_schedule_Suc run_schedule_append)
  also have "\<dots> = run_schedule env [n, n] (?mid, replicate n (Returned (Inr p)) @ [AtTest])"
    by (simp only: first)
  also have "\<dots> = (\<lparr>predictor_ref = Some p, load_count = 1\<rparr>,
      replicate n (Returned (Inr p)) @ [Returned (Inr p)])"
    by (rule last)
  also have "\<dots> = (\<lparr>predictor_ref = (if Suc n = 0 then None else Some p),
      load_count = min (Suc n) 1\<rparr>, replicate (Suc n) (Returned (Inr p)))"
    by (simp add: replicate_append_same)
  finally show ?case .
qed

text \<open>
  C9. The docstring of \<^verbatim>\<open>get_predictor\<close> says \<^verbatim>\<open>singleton pattern\<close>, and the function takes
  no lock. Two threads that both test \<^verbatim>\<open>predictor is None\<close> before either has stored a
  predictor both call \<^verbatim>\<open>create_predictor\<close>: under the schedule \<open>0, 1, 0, 1\<close> the model
  and the class map are loaded twice and the second predictor replaces the first,
  where the same two calls one after the other load once.
\<close>

theorem concurrent_first_calls_load_twice:
  "create_predictor (example_env ordered_members [0, 0, 0])
     = Inr (example_predictor ordered_members [0, 0, 0]) \<and>
   run_schedule (example_env ordered_members [0, 0, 0]) [0, 1, 0, 1]
       (\<lparr>predictor_ref = None, load_count = 0\<rparr>, [AtTest, AtTest])
     = (\<lparr>predictor_ref = Some (example_predictor ordered_members [0, 0, 0]), load_count = 2\<rparr>,
        [Returned (Inr (example_predictor ordered_members [0, 0, 0])),
         Returned (Inr (example_predictor ordered_members [0, 0, 0]))]) \<and>
   run_schedule (example_env ordered_members [0, 0, 0]) (sequential_schedule 2)
       (\<lparr>predictor_ref = None, load_count = 0\<rparr>, [AtTest, AtTest])
     = (\<lparr>predictor_ref = Some (example_predictor ordered_members [0, 0, 0]), load_count = 1\<rparr>,
        [Returned (Inr (example_predictor ordered_members [0, 0, 0])),
         Returned (Inr (example_predictor ordered_members [0, 0, 0]))])"
proof -
  have a: "create_predictor (example_env ordered_members [0, 0, 0])
     = Inr (example_predictor ordered_members [0, 0, 0])"
    by (rule create_predictor_example) (simp_all add: py_dict_def ordered_members_def)
  have b: "sequential_schedule 2 = [0, 0, 1, 1]"
    by (simp add: sequential_schedule_def upt_rec numeral_2_eq_2)
  from a b show ?thesis by simp
qed

end
